theory Spec2Isabelle
  imports Complex_Main
begin

section \<open>Conventions of the embedding\<close>

text \<open>
  The Python classes of \<^verbatim>\<open>rljax/algorithm/base.py\<close> and \<^verbatim>\<open>rljax/algorithm/fqf.py\<close>
  are embedded as records, their methods as functions that take the object and return
  the updated object. A raised exception is a value of type \<open>error\<close>.

  \<^item> A field keeps the name of the Python attribute. A constructor argument carries a
    prime (\<open>gamma'\<close> is the argument \<^verbatim>\<open>gamma\<close>), since the unprimed name is the field.
  \<^item> A Python name with a leading underscore loses it (\<^verbatim>\<open>_update_target\<close> is
    \<open>update_target\<close>, \<^verbatim>\<open>_max_episode_steps\<close> is \<open>max_episode_steps\<close>); an
    abstract method that a subclass supplies is an argument with the suffix \<open>_abs\<close>.
  \<^item> Python integers are \<open>int\<close>. Floating-point numbers are idealised as \<open>real\<close>:
    rounding, infinities and NaN are outside the model.
  \<^item> \<^verbatim>\<open>jax.jit\<close> does not change what a function computes and is left out.
\<close>

datatype error = ZeroDivisionError | AssertionError | IndexError

subsection \<open>Objects of other packages\<close>

text \<open>
  \<^verbatim>\<open>haiku.PRNGSequence(seed)\<close> is an iterator of random keys. It is represented by its
  seed and the number of keys drawn so far; the key it hands out is that pair.
\<close>

type_synonym PRNGSequence = "int \<times> nat"

definition PRNGSequence :: "int \<Rightarrow> PRNGSequence" where
  "PRNGSequence seed' = (seed', 0)"

definition next_key :: "PRNGSequence \<Rightarrow> (int \<times> nat) \<times> PRNGSequence" where
  "next_key r = (r, (fst r, Suc (snd r)))"

text \<open>
  The buffer classes of \<^verbatim>\<open>rljax.buffer\<close> are used through their constructors and
  the methods \<^verbatim>\<open>append\<close>, \<^verbatim>\<open>sample\<close> and \<^verbatim>\<open>update_priority\<close>. A buffer object is
  represented by the constructor call that made it and the method calls it has received,
  oldest first, each with its arguments.
\<close>

datatype 'sp buffer_class =
    RolloutBuffer int 'sp 'sp
      \<comment> \<open>\<^verbatim>\<open>buffer_size, state_space, action_space\<close>\<close>
  | ReplayBuffer int 'sp 'sp real int
      \<comment> \<open>\<^verbatim>\<open>buffer_size, state_space, action_space, gamma, nstep\<close>\<close>
  | PrioritizedReplayBuffer int 'sp 'sp real int real
      \<comment> \<open>\<^verbatim>\<open>buffer_size, state_space, action_space, gamma, nstep, beta_steps\<close>\<close>

datatype ('s, 'a) buffer_call =
    Rollout_append 's 'a real bool real 's
      \<comment> \<open>\<^verbatim>\<open>append(state, action, reward, mask, log_pi, next_state)\<close>\<close>
  | Replay_append 's 'a real bool 's bool
      \<comment> \<open>\<^verbatim>\<open>append(state, action, reward, mask, next_state, done)\<close>\<close>
  | Sample int
      \<comment> \<open>\<^verbatim>\<open>sample(batch_size)\<close>\<close>
  | Update_priority "real list list"
      \<comment> \<open>\<^verbatim>\<open>update_priority(abs_td)\<close>\<close>

record ('sp, 's, 'a) buffer_obj =
  created :: "'sp buffer_class"
  calls :: "('s, 'a) buffer_call list"

definition new_buffer :: "'sp buffer_class \<Rightarrow> ('sp, 's, 'a) buffer_obj" where
  "new_buffer c = \<lparr>created = c, calls = []\<rparr>"

definition call :: "('sp, 's, 'a) buffer_obj \<Rightarrow> ('s, 'a) buffer_call \<Rightarrow> ('sp, 's, 'a) buffer_obj" where
  "call b c = b\<lparr>calls := calls b @ [c]\<rparr>"

text \<open>
  A gym environment \<^verbatim>\<open>env\<close> has a state of its own (type \<open>'e\<close>). Its methods take that
  state and return the new one next to their result; \<^verbatim>\<open>env.step\<close> returns
  \<^verbatim>\<open>(next_state, reward, done, info)\<close>, of which the code ignores \<^verbatim>\<open>info\<close>.
\<close>

record ('e, 's, 'a) gym =
  step :: "'e \<Rightarrow> 'a \<Rightarrow> ('s \<times> real \<times> bool) \<times> 'e"
  reset :: "'e \<Rightarrow> 's \<times> 'e"
  action_space_sample :: "'e \<Rightarrow> 'a \<times> 'e"
  max_episode_steps :: "'e \<Rightarrow> int"

section \<open>\<^verbatim>\<open>base.py\<close>: class Algorithm\<close>

record 'sp Algorithm =
  rng :: PRNGSequence
  env_step :: int
  learning_step :: int
  num_steps :: int
  state_space :: 'sp
  action_space :: 'sp
  gamma :: real

definition Algorithm_init :: "int \<Rightarrow> 'sp \<Rightarrow> 'sp \<Rightarrow> int \<Rightarrow> real \<Rightarrow> 'sp Algorithm" where
  "Algorithm_init num_steps' state_space' action_space' seed' gamma' =
     \<lparr>rng = PRNGSequence seed',
      env_step = 0,
      learning_step = 0,
      num_steps = num_steps',
      state_space = state_space',
      action_space = action_space',
      gamma = gamma'\<rparr>"

section \<open>\<^verbatim>\<open>base.py\<close>: class OnPolicyActorCritic\<close>

record ('sp, 's, 'a) OnPolicyActorCritic = "'sp Algorithm" +
  discount :: real
  buffer_size :: int
  buffer :: "('sp, 's, 'a) buffer_obj"

definition OnPolicyActorCritic_init ::
  "int \<Rightarrow> 'sp \<Rightarrow> 'sp \<Rightarrow> int \<Rightarrow> real \<Rightarrow> int \<Rightarrow> ('sp, 's, 'a) OnPolicyActorCritic" where
  "OnPolicyActorCritic_init num_steps' state_space' action_space' seed' gamma' buffer_size' =
     Algorithm.extend
       (Algorithm_init num_steps' state_space' action_space' seed' gamma')
       (OnPolicyActorCritic.fields
          gamma'
          buffer_size'
          (new_buffer (RolloutBuffer buffer_size' state_space' action_space')))"

text \<open>
  \<^verbatim>\<open>explore\<close> calls the abstract \<^verbatim>\<open>_explore\<close> on a batch of one state
  (\<^verbatim>\<open>state[None, ...]\<close>) with the next random key, and returns the first action and the
  first log-probability of the batch. Indexing an empty batch raises \<^verbatim>\<open>IndexError\<close>.
  \<^verbatim>\<open>params_actor\<close> is an attribute that the subclass sets.
\<close>

definition OnPolicyActorCritic_explore ::
  "('pa \<Rightarrow> int \<times> nat \<Rightarrow> 's list \<Rightarrow> 'a list \<times> real list) \<Rightarrow> 'pa \<Rightarrow>
   ('sp, 's, 'a, 'z) OnPolicyActorCritic_scheme \<Rightarrow> 's \<Rightarrow>
   error + ('a \<times> real) \<times> ('sp, 's, 'a, 'z) OnPolicyActorCritic_scheme" where
  "OnPolicyActorCritic_explore explore_abs params_actor self state =
     (let (key, rng1) = next_key (rng self);
          self1 = self\<lparr>rng := rng1\<rparr>;
          (action, log_pi) = explore_abs params_actor key [state]
      in case action of
           [] \<Rightarrow> Inl IndexError
         | a # _ \<Rightarrow>
             (case log_pi of
                [] \<Rightarrow> Inl IndexError
              | l # _ \<Rightarrow> Inr ((a, l), self1)))"

text \<open>
  \<^verbatim>\<open>is_update\<close>: \<^verbatim>\<open>self.env_step % self.buffer_size == 0\<close>. Python's \<^verbatim>\<open>%\<close> on integers
  is \<open>mod\<close> on \<open>int\<close> (the result has the sign of the divisor) and raises
  \<^verbatim>\<open>ZeroDivisionError\<close> for a zero divisor.
\<close>

definition OnPolicyActorCritic_is_update ::
  "('sp, 's, 'a, 'z) OnPolicyActorCritic_scheme \<Rightarrow> error + bool" where
  "OnPolicyActorCritic_is_update self =
     (if buffer_size self = 0 then Inl ZeroDivisionError
      else Inr (env_step self mod buffer_size self = 0))"

text \<open>
  \<^verbatim>\<open>step(env, state, t)\<close> returns \<^verbatim>\<open>(next_state, t)\<close>; the model returns the updated
  object and environment with it. An exception raised by \<^verbatim>\<open>explore\<close> ends the call.
\<close>

definition OnPolicyActorCritic_step ::
  "('pa \<Rightarrow> int \<times> nat \<Rightarrow> 's list \<Rightarrow> 'a list \<times> real list) \<Rightarrow> 'pa \<Rightarrow>
   ('sp, 's, 'a, 'z) OnPolicyActorCritic_scheme \<Rightarrow> ('e, 's, 'a) gym \<Rightarrow> 'e \<Rightarrow> 's \<Rightarrow> int \<Rightarrow>
   error + ('s \<times> int) \<times> ('sp, 's, 'a, 'z) OnPolicyActorCritic_scheme \<times> 'e" where
  "OnPolicyActorCritic_step explore_abs params_actor self env e state t =
     (let t1 = t + 1;
          self1 = self\<lparr>env_step := env_step self + 1\<rparr>
      in case OnPolicyActorCritic_explore explore_abs params_actor self1 state of
           Inl err \<Rightarrow> Inl err
         | Inr ((action, log_pi), self2) \<Rightarrow>
             (let ((next_state, reward, done), e1) = step env e action;
                  mask = (if t1 = max_episode_steps env e1 then False else done);
                  self3 = self2\<lparr>buffer := call (buffer self2)
                            (Rollout_append state action reward mask log_pi next_state)\<rparr>
              in if done
                 then (let (next_state0, e2) = reset env e1 in Inr ((next_state0, 0), self3, e2))
                 else Inr ((next_state, t1), self3, e1)))"

section \<open>\<^verbatim>\<open>base.py\<close>: class OffPolicyAlgorithm\<close>

record ('sp, 's, 'a) OffPolicyAlgorithm = "'sp Algorithm" +
  buffer :: "('sp, 's, 'a) buffer_obj"
  discount :: real
  use_per :: bool
  batch_size :: int
  start_steps :: int
  update_interval :: int

text \<open>
  The constructor. \<^verbatim>\<open>(num_steps - start_steps) / update_interval\<close> is Python's true
  division, which raises \<^verbatim>\<open>ZeroDivisionError\<close> for a zero divisor; it is evaluated only
  when \<^verbatim>\<open>use_per\<close> holds. \<^verbatim>\<open>gamma ** nstep\<close> with an integer exponent is \<open>power_int\<close>;
  Python raises \<^verbatim>\<open>ZeroDivisionError\<close> for zero to a negative power.
\<close>

definition OffPolicyAlgorithm_init ::
  "int \<Rightarrow> 'sp \<Rightarrow> 'sp \<Rightarrow> int \<Rightarrow> real \<Rightarrow> int \<Rightarrow> int \<Rightarrow> bool \<Rightarrow> int \<Rightarrow> int \<Rightarrow> int \<Rightarrow>
   error + ('sp, 's, 'a) OffPolicyAlgorithm" where
  "OffPolicyAlgorithm_init num_steps' state_space' action_space' seed' gamma' nstep'
       buffer_size' use_per' batch_size' start_steps' update_interval' =
     (let base = Algorithm_init num_steps' state_space' action_space' seed' gamma'
      in if use_per' \<and> update_interval' = 0 then Inl ZeroDivisionError
         else
           (let buffer0 =
                  (if use_per'
                   then new_buffer
                          (PrioritizedReplayBuffer buffer_size' state_space' action_space'
                             gamma' nstep'
                             (real_of_int (num_steps' - start_steps') / real_of_int update_interval'))
                   else new_buffer
                          (ReplayBuffer buffer_size' state_space' action_space' gamma' nstep'))
            in if gamma' = 0 \<and> nstep' < 0 then Inl ZeroDivisionError
               else Inr (Algorithm.extend base
                           (OffPolicyAlgorithm.fields buffer0 (power_int gamma' nstep')
                              use_per' batch_size' start_steps' update_interval'))))"

text \<open>
  \<^verbatim>\<open>is_update\<close>: \<^verbatim>\<open>self.env_step % self.update_interval == 0 and self.env_step >= self.start_steps\<close>.
  The left operand of \<^verbatim>\<open>and\<close> is evaluated first, so a zero \<^verbatim>\<open>update_interval\<close> raises
  whatever \<^verbatim>\<open>env_step\<close> is.
\<close>

definition OffPolicyAlgorithm_is_update ::
  "('sp, 's, 'a, 'z) OffPolicyAlgorithm_scheme \<Rightarrow> error + bool" where
  "OffPolicyAlgorithm_is_update self =
     (if update_interval self = 0 then Inl ZeroDivisionError
      else Inr (env_step self mod update_interval self = 0 \<and> env_step self \<ge> start_steps self))"

text \<open>
  \<^verbatim>\<open>step(env, state, t)\<close>. The abstract \<^verbatim>\<open>explore\<close> of the subclass may change the object
  (it draws random numbers) and may raise.
\<close>

definition OffPolicyAlgorithm_step ::
  "(('sp, 's, 'a, 'z) OffPolicyAlgorithm_scheme \<Rightarrow> 's \<Rightarrow>
      error + 'a \<times> ('sp, 's, 'a, 'z) OffPolicyAlgorithm_scheme) \<Rightarrow>
   ('sp, 's, 'a, 'z) OffPolicyAlgorithm_scheme \<Rightarrow> ('e, 's, 'a) gym \<Rightarrow> 'e \<Rightarrow> 's \<Rightarrow> int \<Rightarrow>
   error + ('s \<times> int) \<times> ('sp, 's, 'a, 'z) OffPolicyAlgorithm_scheme \<times> 'e" where
  "OffPolicyAlgorithm_step explore_abs self env e state t =
     (let t1 = t + 1;
          self1 = self\<lparr>env_step := env_step self + 1\<rparr>
      in case (if env_step self1 \<le> start_steps self1
               then (let (action, e1) = action_space_sample env e in Inr (action, self1, e1))
               else (case explore_abs self1 state of
                       Inl err \<Rightarrow> Inl err
                     | Inr (action, self2) \<Rightarrow> Inr (action, self2, e))) of
           Inl err \<Rightarrow> Inl err
         | Inr (action, self2, e1) \<Rightarrow>
             (let ((next_state, reward, done), e2) = step env e1 action;
                  mask = (if t1 = max_episode_steps env e2 then False else done);
                  self3 = self2\<lparr>buffer := call (buffer self2)
                            (Replay_append state action reward mask next_state done)\<rparr>
              in if done
                 then (let (next_state0, e3) = reset env e2 in Inr ((next_state0, 0), self3, e3))
                 else Inr ((next_state, t1), self3, e2)))"

section \<open>Target-network synchronisation\<close>

text \<open>
  Modelled from the spec: \<^verbatim>\<open>soft_update\<close> of \<^verbatim>\<open>rljax.utils\<close> is imported by
  \<^verbatim>\<open>base.py\<close> and is not among the sources. The spec describes the target network as
  a delayed copy of the online parameters, updated via soft/hard synchronization. The
  call sites fix the signature \<^verbatim>\<open>soft_update(target_params, online_params, tau)\<close>. A
  parameter set gives a real number to every parameter index \<open>'k\<close> of the network (target
  and online network have the same architecture), and the update blends the two sets
  index by index with weight \<open>tau\<close> on the online value.
\<close>

definition soft_update :: "('k \<Rightarrow> real) \<Rightarrow> ('k \<Rightarrow> real) \<Rightarrow> real \<Rightarrow> ('k \<Rightarrow> real)" where
  "soft_update target_params online_params tau' =
     (\<lambda>k. (1 - tau') * target_params k + tau' * online_params k)"

section \<open>\<^verbatim>\<open>base.py\<close>: class OffPolicyActorCritic\<close>

record ('sp, 's, 'a, 'k) OffPolicyActorCritic = "('sp, 's, 'a) OffPolicyAlgorithm" +
  update_target :: "('k \<Rightarrow> real) \<Rightarrow> ('k \<Rightarrow> real) \<Rightarrow> ('k \<Rightarrow> real)"

definition OffPolicyActorCritic_init ::
  "int \<Rightarrow> 'sp \<Rightarrow> 'sp \<Rightarrow> int \<Rightarrow> real \<Rightarrow> int \<Rightarrow> int \<Rightarrow> bool \<Rightarrow> int \<Rightarrow> int \<Rightarrow> int \<Rightarrow> real \<Rightarrow>
   error + ('sp, 's, 'a, 'k) OffPolicyActorCritic" where
  "OffPolicyActorCritic_init num_steps' state_space' action_space' seed' gamma' nstep'
       buffer_size' use_per' batch_size' start_steps' update_interval' tau' =
     (case OffPolicyAlgorithm_init num_steps' state_space' action_space' seed' gamma' nstep'
             buffer_size' use_per' batch_size' start_steps' update_interval' of
        Inl err \<Rightarrow> Inl err
      | Inr base \<Rightarrow>
          Inr (OffPolicyAlgorithm.extend base
                 (OffPolicyActorCritic.fields
                    (\<lambda>target_params online_params.
                       soft_update target_params online_params tau'))))"

section \<open>\<^verbatim>\<open>base.py\<close>: class QLearning\<close>

record ('sp, 's, 'a, 'k) QLearning = "('sp, 's, 'a) OffPolicyAlgorithm" +
  update_interval_target :: int
  eps :: real
  eps_eval :: real
  update_target :: "('k \<Rightarrow> real) \<Rightarrow> ('k \<Rightarrow> real) \<Rightarrow> ('k \<Rightarrow> real)"

definition QLearning_init ::
  "int \<Rightarrow> 'sp \<Rightarrow> 'sp \<Rightarrow> int \<Rightarrow> real \<Rightarrow> int \<Rightarrow> int \<Rightarrow> bool \<Rightarrow> int \<Rightarrow> int \<Rightarrow> int \<Rightarrow> int \<Rightarrow>
   real \<Rightarrow> real \<Rightarrow> error + ('sp, 's, 'a, 'k) QLearning" where
  "QLearning_init num_steps' state_space' action_space' seed' gamma' nstep'
       buffer_size' use_per' batch_size' start_steps' update_interval'
       update_interval_target' eps' eps_eval' =
     (case OffPolicyAlgorithm_init num_steps' state_space' action_space' seed' gamma' nstep'
             buffer_size' use_per' batch_size' start_steps' update_interval' of
        Inl err \<Rightarrow> Inl err
      | Inr base \<Rightarrow>
          Inr (OffPolicyAlgorithm.extend base
                 (QLearning.fields update_interval_target' eps' eps_eval'
                    (\<lambda>target_params online_params.
                       soft_update target_params online_params 1))))"

section \<open>The n-step return\<close>

text \<open>
  Modelled from the spec: the n-step buffer of \<^verbatim>\<open>rljax.buffer\<close>, which receives
  \<^verbatim>\<open>gamma\<close> and \<^verbatim>\<open>nstep\<close> from the constructor above, is not among the sources. The
  spec's glossary describes the n-step return as the reward accumulated over n consecutive
  environment transitions before bootstrapping with a value estimate. \<open>nstep_return\<close> is
  that accumulated reward, the i-th reward discounted i times; \<open>nstep_target\<close> is the
  bootstrapped target, a one-step \<open>backup\<close> applied once for every reward.
\<close>

definition backup :: "real \<Rightarrow> real \<Rightarrow> real \<Rightarrow> real" where
  "backup g r v = r + g * v"

definition nstep_target :: "real \<Rightarrow> real list \<Rightarrow> real \<Rightarrow> real" where
  "nstep_target g rs v = foldr (backup g) rs v"

definition nstep_return :: "real \<Rightarrow> real list \<Rightarrow> real" where
  "nstep_return g rs = (\<Sum>i<length rs. g ^ i * rs ! i)"

section \<open>Example objects\<close>

text \<open>
  Concrete objects on which the theorems below are instantiated. States and actions are
  natural numbers. The environment ends every episode at its first step and has a time
  limit of one step; its sampler always draws the action \<open>7\<close>.
\<close>

definition toy_env :: "(nat, nat, nat) gym" where
  "toy_env = \<lparr>step = (\<lambda>e a. ((e + a, 1, True), Suc e)),
              reset = (\<lambda>e. (0, 0)),
              action_space_sample = (\<lambda>e. (7, e)),
              max_episode_steps = (\<lambda>e. 1)\<rparr>"

definition toy_explore_abs :: "unit \<Rightarrow> int \<times> nat \<Rightarrow> nat list \<Rightarrow> nat list \<times> real list" where
  "toy_explore_abs pa key states = (map (\<lambda>s. s + 2) states, map (\<lambda>s. - 1) states)"

definition toy_explore ::
  "(unit, nat, nat) OffPolicyAlgorithm \<Rightarrow> nat \<Rightarrow>
   error + nat \<times> (unit, nat, nat) OffPolicyAlgorithm" where
  "toy_explore self state = Inr (state + 3, self)"

definition on_policy_zero :: "(unit, nat, nat) OnPolicyActorCritic" where
  "on_policy_zero = OnPolicyActorCritic_init 1000 () () 0 (99 / 100) 0"

definition on_policy_start :: "(unit, nat, nat) OnPolicyActorCritic" where
  "on_policy_start = OnPolicyActorCritic_init 1000 () () 0 (99 / 100) 4"

definition on_policy_four :: "(unit, nat, nat) OnPolicyActorCritic" where
  "on_policy_four = on_policy_start\<lparr>env_step := 8\<rparr>"

definition off_policy_warm :: "(unit, nat, nat) OffPolicyAlgorithm" where
  "off_policy_warm =
     \<lparr>rng = (0, 0), env_step = 0, learning_step = 0, num_steps = 1000,
      state_space = (), action_space = (), gamma = 1 / 2,
      buffer = new_buffer (ReplayBuffer 100 () () (1 / 2) 3),
      discount = 1 / 8, use_per = False, batch_size = 32,
      start_steps = 10, update_interval = 4\<rparr>"

definition off_policy_zero_interval :: "(unit, nat, nat) OffPolicyAlgorithm" where
  "off_policy_zero_interval = off_policy_warm\<lparr>update_interval := 0\<rparr>"

section \<open>Array operations of \<^verbatim>\<open>jax.numpy\<close>\<close>

text \<open>
  Arrays are nested lists of reals, outermost axis first: a list for one axis, a list of
  lists for two, and so on. The operations below are those \<^verbatim>\<open>fqf.py\<close> applies, on
  arrays of the shapes its comments state. A shape error, on which \<^verbatim>\<open>jax\<close> raises, is
  outside the model.
\<close>

text \<open>
  Broadcasting along one axis: an axis of length one is stretched to the length of the
  other operand's axis.
\<close>

definition broadcast :: "('a \<Rightarrow> 'b \<Rightarrow> 'c) \<Rightarrow> 'a list \<Rightarrow> 'b list \<Rightarrow> 'c list" where
  "broadcast f xs ys =
     (if length xs = 1 \<and> length ys \<noteq> 1 then map (f (hd xs)) ys
      else if length ys = 1 \<and> length xs \<noteq> 1 then map (\<lambda>x. f x (hd ys)) xs
      else map2 f xs ys)"

definition broadcast3 ::
  "(real \<Rightarrow> real \<Rightarrow> real) \<Rightarrow> real list list list \<Rightarrow> real list list list \<Rightarrow> real list list list" where
  "broadcast3 f = broadcast (broadcast (broadcast f))"

text \<open>\<^verbatim>\<open>x[:, :, None]\<close> and \<^verbatim>\<open>jnp.expand_dims(x, 2)\<close> on an array of two axes.\<close>

definition expand_dims2 :: "'a list list \<Rightarrow> 'a list list list" where
  "expand_dims2 x = map (map (\<lambda>v. [v])) x"

text \<open>\<^verbatim>\<open>x.sum(axis=1)\<close> on an array of three axes: the rows of every matrix are added up.\<close>

definition sum_axis1 :: "real list list list \<Rightarrow> real list list" where
  "sum_axis1 x = map (\<lambda>m. map sum_list (transpose m)) x"

text \<open>
  \<^verbatim>\<open>x.mean(axis=1, keepdims=True)\<close> on an array of two axes. (The mean over an axis
  of length zero is NaN in \<^verbatim>\<open>jax\<close> and has no counterpart here; the properties below
  are stated for \<open>N > 0\<close>.)
\<close>

definition mean_axis1_keepdims :: "real list list \<Rightarrow> real list list" where
  "mean_axis1_keepdims x = map (\<lambda>row. [sum_list row / real (length row)]) x"

text \<open>\<^verbatim>\<open>jnp.argmax(x, axis=1)\<close> on an array of two axes: the first index of a largest entry.\<close>

fun argmax_from :: "nat \<Rightarrow> real \<Rightarrow> nat \<Rightarrow> real list \<Rightarrow> nat" where
  "argmax_from best v i [] = best"
| "argmax_from best v i (x # xs) =
     (if v < x then argmax_from i x (Suc i) xs else argmax_from best v (Suc i) xs)"

definition argmax :: "real list \<Rightarrow> nat" where
  "argmax xs = (case xs of [] \<Rightarrow> 0 | x # rest \<Rightarrow> argmax_from 0 x 1 rest)"

definition argmax_axis1 :: "real list list \<Rightarrow> nat list" where
  "argmax_axis1 x = map argmax x"

text \<open>
  \<^verbatim>\<open>x.reshape(-1, 1, n)\<close>: the entries in row-major order, cut into rows of \<open>n\<close>, each row
  a matrix of one row.
\<close>

function chunks :: "nat \<Rightarrow> 'a list \<Rightarrow> 'a list list" where
  "chunks n xs = (if n = 0 \<or> xs = [] then [] else take n xs # chunks n (drop n xs))"
  by pat_completeness auto
termination
  by (relation "measure (\<lambda>(n, xs). length xs)") auto

definition reshape_1n :: "nat \<Rightarrow> real list list list \<Rightarrow> real list list list" where
  "reshape_1n n x = map (\<lambda>row. [row]) (chunks n (concat (concat x)))"

text \<open>\<^verbatim>\<open>cum_p[:, 1:] - cum_p[:, :-1]\<close>: the differences of neighbouring entries of every row.\<close>

definition diff_rows :: "real list list \<Rightarrow> real list list" where
  "diff_rows x = map (\<lambda>row. map2 (-) (tl row) (butlast row)) x"

section \<open>\<^verbatim>\<open>fqf.py\<close>: class FQF\<close>

subsection \<open>What \<^verbatim>\<open>fqf.py\<close> imports\<close>

text \<open>
  The networks are \<^verbatim>\<open>haiku\<close> objects. \<^verbatim>\<open>self.net\<close> holds two of them under the keys
  \<^verbatim>\<open>"feature"\<close> and \<^verbatim>\<open>"quantile"\<close>; the record has the \<^verbatim>\<open>apply\<close> function of each.
  \<^verbatim>\<open>self.cum_p_net\<close> is the fraction proposal network with its \<^verbatim>\<open>init\<close> and \<^verbatim>\<open>apply\<close>;
  \<^verbatim>\<open>apply\<close> returns \<^verbatim>\<open>(cum_p, cum_p_prime)\<close> of shapes \<open>(B, N + 1)\<close> and \<open>(B, N)\<close>.
  The quantile network returns an array of shape \<open>(B, N, |A|)\<close>. Batches of states
  (\<open>'sb\<close>) and of features (\<open>'ft\<close>) and the weights of one network (\<open>'w\<close>, \<open>'pc\<close>)
  are not looked into. A parameter dictionary \<^verbatim>\<open>hk.Params\<close> maps a key to weights.
\<close>

record ('w, 'sb, 'ft) net =
  feature_apply :: "'w \<Rightarrow> 'sb \<Rightarrow> 'ft"
  quantile_apply :: "'w \<Rightarrow> 'ft \<Rightarrow> real list list \<Rightarrow> real list list list"

record ('pc, 'ft) cum_p_net =
  cum_p_init :: "int \<times> nat \<Rightarrow> 'ft \<Rightarrow> 'pc"
  cum_p_apply :: "'pc \<Rightarrow> 'ft \<Rightarrow> real list list \<times> real list list"

text \<open>
  A sampled batch is \<^verbatim>\<open>(state, action, reward, done, next_state)\<close>; actions, rewards and
  done flags have shape \<open>(B, 1)\<close>.
\<close>

type_synonym 'sb batch = "'sb \<times> nat list list \<times> real list list \<times> real list list \<times> 'sb"

text \<open>
  The functions of \<^verbatim>\<open>rljax.util\<close> and the method \<^verbatim>\<open>sample\<close> of the buffer are not among
  the sources; they are arguments of the model. \<^verbatim>\<open>optimize(fn_loss, opt, opt_state,
  params_to_update, max_grad_norm, ...)\<close> returns \<^verbatim>\<open>(opt_state, params, loss, aux)\<close>; the
  loss function it receives is given with the remaining arguments bound. Python's one
  \<^verbatim>\<open>optimize\<close> is used at two types, once for each network. \<^verbatim>\<open>sample\<close> returns
  \<^verbatim>\<open>(weight, batch)\<close> and may depend on everything the buffer has received.
\<close>

record ('sp, 's, 'a, 'w, 'kw, 'sb, 'o, 'os, 'pc, 'wt) util =
  get_quantile_at_action :: "real list list list \<Rightarrow> nat list list \<Rightarrow> real list list list"
  quantile_loss :: "real list list list \<Rightarrow> real list list \<Rightarrow> 'wt \<Rightarrow> string \<Rightarrow> real"
  optimize_cum_p ::
    "('pc \<Rightarrow> real \<times> unit) \<Rightarrow> 'o \<Rightarrow> 'os \<Rightarrow> 'pc \<Rightarrow> real option \<Rightarrow> 'os \<times> 'pc \<times> real \<times> unit"
  optimize ::
    "((string \<Rightarrow> 'w) \<Rightarrow> real \<times> real list list) \<Rightarrow> 'o \<Rightarrow> 'os \<Rightarrow> (string \<Rightarrow> 'w) \<Rightarrow>
     real option \<Rightarrow> 'kw \<Rightarrow> 'os \<times> (string \<Rightarrow> 'w) \<times> real \<times> real list list"
  sample :: "('sp, 's, 'a) buffer_obj \<Rightarrow> int \<Rightarrow> 'wt \<times> 'sb batch"

text \<open>
  FQF extends the class \<^verbatim>\<open>QLearning\<close> of \<^verbatim>\<open>rljax.algorithm.base_class\<close>, a module that is
  not among the sources (its constructor takes \<^verbatim>\<open>num_agent_steps\<close>, \<^verbatim>\<open>max_grad_norm\<close>
  and \<^verbatim>\<open>eps_decay_steps\<close>, which the \<^verbatim>\<open>QLearning\<close> of \<^verbatim>\<open>base.py\<close> does not). The
  record holds the attributes that \<^verbatim>\<open>fqf.py\<close> reads from it.
\<close>

record ('sp, 's, 'a, 'w, 'kw) base_class_QLearning =
  rng :: PRNGSequence
  agent_step :: int
  learning_step :: int
  buffer :: "('sp, 's, 'a) buffer_obj"
  batch_size :: int
  use_per :: bool
  update_interval_target :: int
  max_grad_norm :: "real option"
  discount :: real
  kwargs_update :: 'kw
  update_target :: "(string \<Rightarrow> 'w) \<Rightarrow> (string \<Rightarrow> 'w) \<Rightarrow> (string \<Rightarrow> 'w)"

record ('sp, 's, 'a, 'w, 'kw, 'sb, 'ft, 'o, 'os, 'pc) FQF =
  "('sp, 's, 'a, 'w, 'kw) base_class_QLearning" +
  net :: "('w, 'sb, 'ft) net"
  params :: "string \<Rightarrow> 'w"
  params_target :: "string \<Rightarrow> 'w"
  opt :: 'o
  opt_state :: 'os
  cum_p_net :: "('pc, 'ft) cum_p_net"
  params_cum_p :: 'pc
  opt_cum_p :: 'o
  opt_state_cum_p :: 'os
  num_quantiles :: int
  num_cosines :: int
  loss_type :: string
  double_q :: bool

subsection \<open>\<^verbatim>\<open>_forward\<close>\<close>

definition FQF_forward ::
  "('sp, 's, 'a, 'w, 'kw, 'sb, 'ft, 'o, 'os, 'pc) FQF \<Rightarrow> 'pc \<Rightarrow> (string \<Rightarrow> 'w) \<Rightarrow> 'sb \<Rightarrow> nat list" where
  "FQF_forward self params_cum_p' params' state =
     (let feature = feature_apply (net self) (params' ''feature'') state;
          (cum_p, cum_p_prime) = cum_p_apply (cum_p_net self) params_cum_p' feature;
          quantile_s = quantile_apply (net self) (params' ''quantile'') feature cum_p_prime;
          q_s = sum_axis1 (broadcast3 (*) (expand_dims2 (diff_rows cum_p)) quantile_s)
      in argmax_axis1 q_s)"

subsection \<open>\<^verbatim>\<open>_loss\<close>\<close>

text \<open>
  Lines 168 to 196 of \<^verbatim>\<open>_loss\<close>: the target quantile values, of shape \<open>(B, 1, N)\<close>, the
  current quantile values, of shape \<open>(B, N, 1)\<close>, and the proposed fractions.
  \<^verbatim>\<open>jax.lax.stop_gradient\<close> does not change a value.
\<close>

definition FQF_quantiles ::
  "('sp, 's, 'a, 'w, 'kw, 'sb, 'o, 'os, 'pc, 'wt) util \<Rightarrow>
   ('sp, 's, 'a, 'w, 'kw, 'sb, 'ft, 'o, 'os, 'pc) FQF \<Rightarrow>
   (string \<Rightarrow> 'w) \<Rightarrow> (string \<Rightarrow> 'w) \<Rightarrow> 'pc \<Rightarrow> 'sb \<Rightarrow> nat list list \<Rightarrow> real list list \<Rightarrow>
   real list list \<Rightarrow> 'sb \<Rightarrow> real list list list \<times> real list list list \<times> real list list" where
  "FQF_quantiles util self params' params_target' params_cum_p' state action reward done next_state =
     (let feature = feature_apply (net self) (params' ''feature'') state;
          next_feature = feature_apply (net self) (params_target' ''feature'') next_state;
          cum_p_prime = snd (cum_p_apply (cum_p_net self) params_cum_p' feature);
          next_action =
            (if double_q self
             then map (\<lambda>i. [i]) (FQF_forward self params_cum_p' params' next_state)
             else (let (next_cum_p, next_cum_p_prime) =
                         cum_p_apply (cum_p_net self) params_cum_p' next_feature;
                       next_quantile_s =
                         quantile_apply (net self) (params_target' ''quantile'') next_feature
                           next_cum_p_prime;
                       next_q_s =
                         sum_axis1 (broadcast3 (*) (expand_dims2 (diff_rows next_cum_p))
                                      next_quantile_s)
                   in map (\<lambda>i. [i]) (argmax_axis1 next_q_s)));
          next_quantile_s =
            quantile_apply (net self) (params_target' ''quantile'') next_feature cum_p_prime;
          next_quantile = get_quantile_at_action util next_quantile_s next_action;
          target_quantile =
            broadcast3 (+) (expand_dims2 reward)
              (broadcast3 (*)
                 (map (map (map (\<lambda>d. (1 - d) * discount self))) (expand_dims2 done))
                 next_quantile);
          target_quantile = reshape_1n (nat (num_quantiles self)) target_quantile;
          curr_quantile =
            get_quantile_at_action util
              (quantile_apply (net self) (params' ''quantile'') feature cum_p_prime) action
      in (target_quantile, curr_quantile, cum_p_prime))"

text \<open>
  Line 199: \<^verbatim>\<open>jnp.abs(td).sum(axis=1).mean(axis=1, keepdims=True)\<close> on the array
  \<^verbatim>\<open>td\<close> of shape \<open>(B, N, N)\<close>.
\<close>

definition abs_td_of :: "real list list list \<Rightarrow> real list list" where
  "abs_td_of td = mean_axis1_keepdims (sum_axis1 (map (map (map abs)) td))"

text \<open>Lines 197 to 200 of \<^verbatim>\<open>_loss\<close>: it returns \<^verbatim>\<open>(loss, abs_td)\<close>.\<close>

definition FQF_loss ::
  "('sp, 's, 'a, 'w, 'kw, 'sb, 'o, 'os, 'pc, 'wt) util \<Rightarrow>
   ('sp, 's, 'a, 'w, 'kw, 'sb, 'ft, 'o, 'os, 'pc) FQF \<Rightarrow>
   (string \<Rightarrow> 'w) \<Rightarrow> (string \<Rightarrow> 'w) \<Rightarrow> 'pc \<Rightarrow> 'sb \<Rightarrow> nat list list \<Rightarrow> real list list \<Rightarrow>
   real list list \<Rightarrow> 'sb \<Rightarrow> 'wt \<Rightarrow> real \<times> real list list" where
  "FQF_loss util self params' params_target' params_cum_p' state action reward done next_state
       weight =
     (let (target_quantile, curr_quantile, cum_p_prime) =
            FQF_quantiles util self params' params_target' params_cum_p' state action reward
              done next_state;
          td = broadcast3 (-) target_quantile curr_quantile;
          loss = quantile_loss util td cum_p_prime weight (loss_type self);
          abs_td = abs_td_of td
      in (loss, abs_td))"

subsection \<open>\<^verbatim>\<open>update\<close>\<close>

text \<open>
  \<^verbatim>\<open>update(writer)\<close>. The writer is \<^verbatim>\<open>None\<close> or an object that is represented by the
  \<^verbatim>\<open>add_scalar(tag, value, step)\<close> calls it has received. The method changes the object
  step by step, so an exception leaves the changes made before it: the model returns the
  exception, if any, next to the object. \<^verbatim>\<open>_loss_cum_p\<close> (lines 202 to 220) produces the
  loss that is handed to the optimizer of the fraction proposal network; no property
  below depends on what it computes, and it is the argument \<open>loss_cum_p_fn\<close>.
\<close>

type_synonym writer = "(string \<times> real \<times> int) list"

definition FQF_update ::
  "('sp, 's, 'a, 'w, 'kw, 'sb, 'o, 'os, 'pc, 'wt) util \<Rightarrow>
   (('sp, 's, 'a, 'w, 'kw, 'sb, 'ft, 'o, 'os, 'pc) FQF \<Rightarrow> 'pc \<Rightarrow> (string \<Rightarrow> 'w) \<Rightarrow> 'sb \<Rightarrow>
      nat list list \<Rightarrow> real \<times> unit) \<Rightarrow>
   writer option \<Rightarrow> ('sp, 's, 'a, 'w, 'kw, 'sb, 'ft, 'o, 'os, 'pc) FQF \<Rightarrow>
   error option \<times> ('sp, 's, 'a, 'w, 'kw, 'sb, 'ft, 'o, 'os, 'pc) FQF \<times> writer option" where
  "FQF_update util loss_cum_p_fn writer self =
     (let self1 = self\<lparr>learning_step := learning_step self + 1\<rparr>;
          (weight, batch) = sample util (buffer self1) (batch_size self1);
          self2 = self1\<lparr>buffer := call (buffer self1) (Sample (batch_size self1))\<rparr>;
          (state, action, reward, done, next_state) = batch;
          (opt_state_cum_p1, params_cum_p1, loss_cum_p, _) =
            optimize_cum_p util
              (\<lambda>p. loss_cum_p_fn self2 p (params self2) state action)
              (opt_cum_p self2) (opt_state_cum_p self2) (params_cum_p self2)
              (max_grad_norm self2);
          self3 = self2\<lparr>opt_state_cum_p := opt_state_cum_p1, params_cum_p := params_cum_p1\<rparr>;
          (opt_state1, params1, loss, abs_td) =
            optimize util
              (\<lambda>p. FQF_loss util self3 p (params_target self3) (params_cum_p self3)
                     state action reward done next_state weight)
              (opt self3) (opt_state self3) (params self3) (max_grad_norm self3)
              (kwargs_update self3);
          self4 = self3\<lparr>opt_state := opt_state1, params := params1\<rparr>;
          self5 = (if use_per self4
                   then self4\<lparr>buffer := call (buffer self4) (Update_priority abs_td)\<rparr>
                   else self4)
      in if update_interval_target self5 = 0 then (Some ZeroDivisionError, self5, writer)
         else
           (let self6 =
                  (if agent_step self5 mod update_interval_target self5 = 0
                   then self5\<lparr>params_target :=
                                 update_target self5 (params_target self5) (params self5)\<rparr>
                   else self5)
            in (None, self6,
                case writer of
                  None \<Rightarrow> None
                | Some w \<Rightarrow>
                    (if learning_step self6 mod 1000 = 0
                     then Some (w @ [(''loss/q'', loss, learning_step self6),
                                     (''loss/cum_p'', loss_cum_p, learning_step self6)])
                     else Some w))))"

subsection \<open>\<^verbatim>\<open>__init__\<close>\<close>

text \<open>
  What the constructor calls in \<^verbatim>\<open>haiku\<close>, \<^verbatim>\<open>optix\<close> and \<^verbatim>\<open>rljax.network\<close>:
  \<^verbatim>\<open>make_quantile_nerwork(rng, state_space, action_space, fn, num_quantiles)\<close> returns
  \<^verbatim>\<open>(net, params, fake_feature)\<close> and draws keys from \<^verbatim>\<open>rng\<close>; \<^verbatim>\<open>optix.adam(lr, eps)\<close> and
  \<^verbatim>\<open>optix.rmsprop(lr, decay, eps, centered)\<close> return \<^verbatim>\<open>(opt_init, opt)\<close>;
  \<^verbatim>\<open>CumProbNetwork\<close> stands for the transformed fraction proposal network of line 81;
  \<^verbatim>\<open>DiscreteImplicitQuantileFunction\<close> stands for the default \<^verbatim>\<open>fn\<close> of lines 68 to 73.
\<close>

record ('sp, 'w, 'sb, 'ft, 'o, 'os, 'pc, 'fn) lib =
  DiscreteImplicitQuantileFunction :: "'sp \<Rightarrow> int list \<Rightarrow> bool \<Rightarrow> 'fn"
  make_quantile_nerwork ::
    "PRNGSequence \<Rightarrow> 'sp \<Rightarrow> 'sp \<Rightarrow> 'fn \<Rightarrow> int \<Rightarrow>
     (('w, 'sb, 'ft) net \<times> (string \<Rightarrow> 'w) \<times> 'ft) \<times> PRNGSequence"
  adam :: "real \<Rightarrow> real \<Rightarrow> ((string \<Rightarrow> 'w) \<Rightarrow> 'os) \<times> 'o"
  rmsprop :: "real \<Rightarrow> real \<Rightarrow> real \<Rightarrow> bool \<Rightarrow> ('pc \<Rightarrow> 'os) \<times> 'o"
  CumProbNetwork :: "int \<Rightarrow> ('pc, 'ft) cum_p_net"

text \<open>
  The constructor of the parent class is the argument \<open>QLearning_init_abs\<close>; it returns
  the inherited part of the object or raises. The arguments are passed in the order of
  the call in lines 48 to 65. \<^verbatim>\<open>0.01 / batch_size\<close> raises \<^verbatim>\<open>ZeroDivisionError\<close> for a
  zero \<^verbatim>\<open>batch_size\<close>. (Run with \<^verbatim>\<open>python -O\<close>, Python skips every \<^verbatim>\<open>assert\<close>; the model
  is of the default mode.)
\<close>

definition FQF_init ::
  "('sp, 'w, 'sb, 'ft, 'o, 'os, 'pc, 'fn) lib \<Rightarrow>
   (int \<Rightarrow> 'sp \<Rightarrow> 'sp \<Rightarrow> int \<Rightarrow> real option \<Rightarrow> real \<Rightarrow> int \<Rightarrow> int \<Rightarrow> int \<Rightarrow> bool \<Rightarrow> int \<Rightarrow> int \<Rightarrow>
      int \<Rightarrow> real \<Rightarrow> real \<Rightarrow> int \<Rightarrow> error + ('sp, 's, 'a, 'w, 'kw) base_class_QLearning) \<Rightarrow>
   int \<Rightarrow> 'sp \<Rightarrow> 'sp \<Rightarrow> int \<Rightarrow> real option \<Rightarrow> real \<Rightarrow> int \<Rightarrow> int \<Rightarrow> bool \<Rightarrow> int \<Rightarrow> int \<Rightarrow> int \<Rightarrow>
   int \<Rightarrow> real \<Rightarrow> real \<Rightarrow> int \<Rightarrow> 'fn option \<Rightarrow> real \<Rightarrow> real \<Rightarrow> int list \<Rightarrow> int \<Rightarrow> int \<Rightarrow>
   string \<Rightarrow> bool \<Rightarrow> bool \<Rightarrow>
   error + ('sp, 's, 'a, 'w, 'kw, 'sb, 'ft, 'o, 'os, 'pc) FQF" where
  "FQF_init lib QLearning_init_abs num_agent_steps' state_space' action_space' seed'
       max_grad_norm' gamma' nstep' buffer_size' use_per' batch_size' start_steps'
       update_interval' update_interval_target' eps' eps_eval' eps_decay_steps' fn' lr'
       lr_cum_p' units' num_quantiles' num_cosines' loss_type' dueling_net' double_q' =
     (if loss_type' \<notin> set [''l2'', ''huber''] then Inl AssertionError
      else
        case QLearning_init_abs num_agent_steps' state_space' action_space' seed'
               max_grad_norm' gamma' nstep' buffer_size' batch_size' use_per' start_steps'
               update_interval' update_interval_target' eps' eps_eval' eps_decay_steps' of
          Inl err \<Rightarrow> Inl err
        | Inr base \<Rightarrow>
            (let fn1 = (case fn' of
                          None \<Rightarrow> DiscreteImplicitQuantileFunction lib action_space' units'
                                    dueling_net'
                        | Some f \<Rightarrow> f);
                 ((net1, params1, fake_feature), rng1) =
                   make_quantile_nerwork lib (rng base) state_space' action_space' fn1
                     num_quantiles';
                 params_target1 = params1
             in if batch_size' = 0 then Inl ZeroDivisionError
                else
                  (let (opt_init, opt1) = adam lib lr' ((1 / 100) / real_of_int batch_size');
                       opt_state1 = opt_init params1;
                       cum_p_net1 = CumProbNetwork lib num_quantiles';
                       (key, rng2) = next_key rng1;
                       params_cum_p1 = cum_p_init cum_p_net1 key fake_feature;
                       (opt_init_cum_p, opt_cum_p1) =
                         rmsprop lib lr_cum_p' (95 / 100) (1 / 100000) True;
                       opt_state_cum_p1 = opt_init_cum_p params_cum_p1
                   in Inr (base_class_QLearning.extend (base\<lparr>rng := rng2\<rparr>)
                             (FQF.fields net1 params1 params_target1 opt1 opt_state1
                                cum_p_net1 params_cum_p1 opt_cum_p1 opt_state_cum_p1
                                num_quantiles' num_cosines' loss_type' double_q')))))"

section \<open>Example objects for FQF\<close>

text \<open>
  A batch of one sample, two quantiles and two actions. The networks are arithmetic on
  one real weight; the optimizers add one to every parameter and hand back the loss and the
  auxiliary output of the loss function they are given. The parent constructor of the
  example raises \<^verbatim>\<open>ZeroDivisionError\<close> for \<^verbatim>\<open>update_interval = 0\<close>.
\<close>

definition toy_net :: "(real, nat, nat) net" where
  "toy_net = \<lparr>feature_apply = (\<lambda>w s. s),
              quantile_apply = (\<lambda>w ft cpp. map (map (\<lambda>tau. [w * tau, w * (1 - tau)])) cpp)\<rparr>"

definition toy_cum_p_net :: "(real, nat) cum_p_net" where
  "toy_cum_p_net = \<lparr>cum_p_init = (\<lambda>key ft. 0),
                    cum_p_apply = (\<lambda>pc ft. ([[0, 1 / 2, 1]], [[1 / 4, 3 / 4]]))\<rparr>"

definition toy_util :: "(unit, nat, nat, real, unit, nat, unit, nat, real, unit) util" where
  "toy_util =
     \<lparr>get_quantile_at_action =
        (\<lambda>qs act. map2 (\<lambda>m a. map (\<lambda>row. [row ! hd a]) m) qs act),
      quantile_loss = (\<lambda>td cpp w lt. 0),
      optimize_cum_p = (\<lambda>f opt' st p g. (Suc st, p + 1, fst (f p), ())),
      optimize = (\<lambda>f opt' st p g kw. (Suc st, (\<lambda>k. p k + 1), fst (f p), snd (f p))),
      sample = (\<lambda>b n. ((), (0, [[0]], [[1]], [[0]], 1)))\<rparr>"

definition toy_loss_cum_p ::
  "(unit, nat, nat, real, unit, nat, nat, unit, nat, real) FQF \<Rightarrow> real \<Rightarrow> (string \<Rightarrow> real) \<Rightarrow>
   nat \<Rightarrow> nat list list \<Rightarrow> real \<times> unit" where
  "toy_loss_cum_p self pc p state action = (0, ())"

definition toy_fqf :: "(unit, nat, nat, real, unit, nat, nat, unit, nat, real) FQF" where
  "toy_fqf =
     \<lparr>rng = (0, 0), agent_step = 16, learning_step = 0,
      buffer = new_buffer (PrioritizedReplayBuffer 100 () () (1 / 2) 1 10),
      batch_size = 32, use_per = True, update_interval_target = 8,
      max_grad_norm = None, discount = 1 / 2, kwargs_update = (),
      update_target = (\<lambda>target online. online),
      net = toy_net, params = (\<lambda>k. 2), params_target = (\<lambda>k. 4), opt = (), opt_state = 0,
      cum_p_net = toy_cum_p_net, params_cum_p = 0, opt_cum_p = (), opt_state_cum_p = 0,
      num_quantiles = 2, num_cosines = 64, loss_type = ''huber'', double_q = False\<rparr>"

definition toy_lib :: "(unit, real, nat, nat, unit, nat, real, unit) lib" where
  "toy_lib =
     \<lparr>DiscreteImplicitQuantileFunction = (\<lambda>sp units dueling. ()),
      make_quantile_nerwork =
        (\<lambda>r ss as f n. ((toy_net, (\<lambda>k. 2), 0), (fst r, Suc (snd r)))),
      adam = (\<lambda>lr e. ((\<lambda>p. 0), ())),
      rmsprop = (\<lambda>lr decay e centered. ((\<lambda>p. 0), ())),
      CumProbNetwork = (\<lambda>n. toy_cum_p_net)\<rparr>"

definition toy_QLearning_init ::
  "int \<Rightarrow> unit \<Rightarrow> unit \<Rightarrow> int \<Rightarrow> real option \<Rightarrow> real \<Rightarrow> int \<Rightarrow> int \<Rightarrow> int \<Rightarrow> bool \<Rightarrow> int \<Rightarrow> int \<Rightarrow>
   int \<Rightarrow> real \<Rightarrow> real \<Rightarrow> int \<Rightarrow> error + (unit, nat, nat, real, unit) base_class_QLearning" where
  "toy_QLearning_init num_agent_steps' state_space' action_space' seed' max_grad_norm' gamma'
       nstep' buffer_size' batch_size' use_per' start_steps' update_interval'
       update_interval_target' eps' eps_eval' eps_decay_steps' =
     (if update_interval' = 0 then Inl ZeroDivisionError
      else Inr \<lparr>rng = PRNGSequence seed', agent_step = 0, learning_step = 0,
                buffer = new_buffer (ReplayBuffer buffer_size' state_space' action_space'
                           gamma' nstep'),
                batch_size = batch_size', use_per = use_per',
                update_interval_target = update_interval_target',
                max_grad_norm = max_grad_norm', discount = power_int gamma' nstep',
                kwargs_update = (), update_target = (\<lambda>target online. online)\<rparr>)"

section \<open>The replay buffer as a circular store\<close>











section \<open>Properties\<close>

subsection \<open>Facts about the constructors\<close>

lemma OnPolicyActorCritic_init_fields:
  "env_step (OnPolicyActorCritic_init n ss as sd g b :: ('sp, 's, 'a) OnPolicyActorCritic) = 0"
  "OnPolicyActorCritic.buffer_size
     (OnPolicyActorCritic_init n ss as sd g b :: ('sp, 's, 'a) OnPolicyActorCritic) = b"
  "Algorithm.rng (OnPolicyActorCritic_init n ss as sd g b :: ('sp, 's, 'a) OnPolicyActorCritic) = (sd, 0)"
  "OnPolicyActorCritic.buffer
     (OnPolicyActorCritic_init n ss as sd g b :: ('sp, 's, 'a) OnPolicyActorCritic) =
   new_buffer (RolloutBuffer b ss as)"
  by (simp_all add: OnPolicyActorCritic_init_def Algorithm_init_def Algorithm.defs
      OnPolicyActorCritic.defs PRNGSequence_def)

lemma off_policy_examples:
  "OffPolicyAlgorithm_init 1000 () () 0 (1 / 2) 3 100 False 32 10 4 = Inr off_policy_warm"
  "OffPolicyAlgorithm_init 1000 () () 0 (1 / 2) 3 100 False 32 10 0 = Inr off_policy_zero_interval"
  by (simp_all add: OffPolicyAlgorithm_init_def Let_def Algorithm_init_def Algorithm.defs
      OffPolicyAlgorithm.defs off_policy_warm_def off_policy_zero_interval_def PRNGSequence_def
      power_int_def power3_eq_cube)

lemma OffPolicyAlgorithm_init_Inr:
  assumes "OffPolicyAlgorithm_init n ss as sd g ns bs per b st ui = Inr self"
  shows "self = Algorithm.extend (Algorithm_init n ss as sd g)
            (OffPolicyAlgorithm.fields
               (new_buffer (if per then PrioritizedReplayBuffer bs ss as g ns (real_of_int (n - st) / real_of_int ui)
                            else ReplayBuffer bs ss as g ns))
               (power_int g ns) per b st ui)"
    and "\<not> (per \<and> ui = 0)" and "\<not> (g = 0 \<and> ns < 0)"
  using assms by (auto simp: OffPolicyAlgorithm_init_def Let_def split: if_splits)

lemma OffPolicyAlgorithm_init_total:
  "\<not> (per \<and> ui = 0) \<Longrightarrow> \<not> (g = 0 \<and> ns < 0) \<Longrightarrow>
   \<exists>self. OffPolicyAlgorithm_init n ss as sd g ns bs per b st ui = Inr self"
  by (auto simp: OffPolicyAlgorithm_init_def Let_def)

subsection \<open>Facts about \<^verbatim>\<open>step\<close>\<close>

text \<open>
  What a call of \<^verbatim>\<open>step\<close> does, once the action and the environment's answer are named:
  in the warm-up phase, after it, and for the on-policy class.
\<close>

lemma OffPolicyAlgorithm_step_warm_up:
  assumes "env_step self + 1 \<le> start_steps self"
    and "action_space_sample env e = (action, e1)"
    and "step env e1 action = ((next_state, reward, done), e2)"
  shows "OffPolicyAlgorithm_step explore_abs self env e state t =
     (let self3 = self\<lparr>env_step := env_step self + 1,
                        OffPolicyAlgorithm.buffer := call (OffPolicyAlgorithm.buffer self)
                          (Replay_append state action reward
                             (if t + 1 = max_episode_steps env e2 then False else done)
                             next_state done)\<rparr>
      in if done then Inr ((fst (reset env e2), 0), self3, snd (reset env e2))
         else Inr ((next_state, t + 1), self3, e2))"
  using assms by (simp add: OffPolicyAlgorithm_step_def Let_def split: prod.splits)

lemma OffPolicyAlgorithm_step_explore:
  assumes "\<not> env_step self + 1 \<le> start_steps self"
    and "explore_abs (self\<lparr>env_step := env_step self + 1\<rparr>) state = Inr (action, self2)"
    and "step env e action = ((next_state, reward, done), e2)"
  shows "OffPolicyAlgorithm_step explore_abs self env e state t =
     (let self3 = self2\<lparr>OffPolicyAlgorithm.buffer := call (OffPolicyAlgorithm.buffer self2)
                          (Replay_append state action reward
                             (if t + 1 = max_episode_steps env e2 then False else done)
                             next_state done)\<rparr>
      in if done then Inr ((fst (reset env e2), 0), self3, snd (reset env e2))
         else Inr ((next_state, t + 1), self3, e2))"
  using assms by (simp add: OffPolicyAlgorithm_step_def Let_def split: prod.splits)

lemma OnPolicyActorCritic_step_explore:
  assumes "OnPolicyActorCritic_explore explore_abs params_actor
             (self\<lparr>env_step := env_step self + 1\<rparr>) state = Inr ((action, log_pi), self2)"
    and "step env e action = ((next_state, reward, done), e1)"
  shows "OnPolicyActorCritic_step explore_abs params_actor self env e state t =
     (let self3 = self2\<lparr>OnPolicyActorCritic.buffer := call (OnPolicyActorCritic.buffer self2)
                          (Rollout_append state action reward
                             (if t + 1 = max_episode_steps env e1 then False else done)
                             log_pi next_state)\<rparr>
      in if done then Inr ((fst (reset env e1), 0), self3, snd (reset env e1))
         else Inr ((next_state, t + 1), self3, e1))"
  using assms by (simp add: OnPolicyActorCritic_step_def Let_def split: prod.splits)

lemma OnPolicyActorCritic_explore_buffer:
  "OnPolicyActorCritic_explore explore_abs params_actor self state = Inr (r, self2) \<Longrightarrow>
   OnPolicyActorCritic.buffer self2 = OnPolicyActorCritic.buffer self"
  by (auto simp: OnPolicyActorCritic_explore_def Let_def split: prod.splits list.splits)

subsection \<open>Facts about the n-step return and the soft update\<close>

lemma nstep_return_Cons: "nstep_return g (r # rs) = r + g * nstep_return g rs"
  by (simp add: nstep_return_def sum.lessThan_Suc_shift sum_distrib_left mult_ac
      del: sum.lessThan_Suc)

lemma nstep_target_return:
  "nstep_target g rs v = nstep_return g rs + g ^ length rs * v"
proof (induction rs)
  case Nil
  show ?case by (simp add: nstep_target_def nstep_return_def)
next
  case (Cons r rs)
  then show ?case
    by (simp add: nstep_target_def nstep_return_Cons backup_def algebra_simps)
qed

lemma soft_update_between:
  assumes "0 \<le> tau'" "tau' \<le> 1"
  shows "min (t k) (s k) \<le> soft_update t s tau' k \<and> soft_update t s tau' k \<le> max (t k) (s k)"
proof -
  define d where "d = tau' * (s k - t k)"
  have eq: "soft_update t s tau' k = t k + d"
    by (simp add: soft_update_def d_def algebra_simps)
  show ?thesis
  proof (cases "t k \<le> s k")
    case True
    have "0 \<le> d"
      unfolding d_def using assms True by simp
    moreover have "d \<le> s k - t k"
      unfolding d_def using mult_right_mono [of tau' 1 "s k - t k"] assms True by simp
    ultimately show ?thesis
      using True by (simp add: eq)
  next
    case False
    have "d \<le> 0"
      unfolding d_def using assms False by (simp add: mult_nonneg_nonpos)
    moreover have "s k - t k \<le> d"
      unfolding d_def using mult_right_mono_neg [of tau' 1 "s k - t k"] assms False by simp
    ultimately show ?thesis
      using False by (simp add: eq)
  qed
qed

subsection \<open>Facts about \<^verbatim>\<open>FQF.update\<close>\<close>

text \<open>
  \<^verbatim>\<open>_loss\<close> reads only the networks and the constants of the object, so the changes that
  \<^verbatim>\<open>update\<close> makes before calling it do not matter to it. With the sampled batch and the
  results of the two optimizer calls named, \<^verbatim>\<open>update\<close> is one record update.
\<close>

lemma FQF_loss_config:
  "FQF_loss util (self\<lparr>learning_step := a, buffer := b, opt_state_cum_p := c, params_cum_p := d\<rparr>) =
   FQF_loss util self"
  by (intro ext) (simp add: FQF_loss_def FQF_quantiles_def FQF_forward_def Let_def split_def)

lemma FQF_update_unfold:
  assumes s: "sample util (buffer self) (batch_size self) =
                (weight, state, action, reward, done, next_state)"
    and c: "optimize_cum_p util
              (\<lambda>p. loss_cum_p_fn
                     (self\<lparr>learning_step := learning_step self + 1,
                            buffer := call (buffer self) (Sample (batch_size self))\<rparr>)
                     p (params self) state action)
              (opt_cum_p self) (opt_state_cum_p self) (params_cum_p self) (max_grad_norm self) =
            (osc, pc, lcp, u)"
    and q: "optimize util
              (\<lambda>p. FQF_loss util self p (params_target self) pc state action reward done
                     next_state weight)
              (opt self) (opt_state self) (params self) (max_grad_norm self)
              (kwargs_update self) =
            (os, p1, loss, abs_td)"
  shows "FQF_update util loss_cum_p_fn writer self =
     (if update_interval_target self = 0 then Some ZeroDivisionError else None,
      self\<lparr>learning_step := learning_step self + 1,
           buffer := (if use_per self
                      then call (call (buffer self) (Sample (batch_size self)))
                             (Update_priority abs_td)
                      else call (buffer self) (Sample (batch_size self))),
           opt_state_cum_p := osc, params_cum_p := pc,
           opt_state := os, params := p1,
           params_target :=
             (if update_interval_target self \<noteq> 0 \<and>
                 agent_step self mod update_interval_target self = 0
              then update_target self (params_target self) p1
              else params_target self)\<rparr>,
      if update_interval_target self = 0 then writer
      else (case writer of
              None \<Rightarrow> None
            | Some w \<Rightarrow>
                (if (learning_step self + 1) mod 1000 = 0
                 then Some (w @ [(''loss/q'', loss, learning_step self + 1),
                                 (''loss/cum_p'', lcp, learning_step self + 1)])
                 else Some w)))"
  using s c q by (simp add: FQF_update_def Let_def FQF_loss_config split: option.split)

subsection \<open>Facts about \<^verbatim>\<open>abs_td\<close>\<close>

text \<open>
  On a target of shape \<open>(B, 1, N)\<close> and current values of shape \<open>(B, N, 1)\<close> the
  difference has shape \<open>(B, N, N)\<close>, and line 199 computes, for every sample, the sum
  over the current quantiles \<open>i\<close> of \<open>\<bar>target j - current i\<bar>\<close>, averaged over the target
  quantiles \<open>j\<close>.
\<close>

lemma broadcast_row_column:
  assumes "length ts = n" "length cs = n" "0 < n"
  shows "broadcast (broadcast (-)) [ts] (map (\<lambda>c. [c]) cs) =
         map (\<lambda>c. map (\<lambda>t. t - c) ts) cs"
proof (cases "n = 1")
  case True
  with assms obtain t c where "ts = [t]" "cs = [c]"
    by (auto simp: length_Suc_conv)
  then show ?thesis
    by (simp add: broadcast_def)
next
  case False
  with assms show ?thesis
    by (simp add: broadcast_def)
qed

lemma sum_columns:
  assumes "length ts = n" "length cs = n" "0 < n"
  shows "map sum_list (transpose (map (\<lambda>c. map (\<lambda>t. \<bar>t - c\<bar>) ts) cs)) =
         map (\<lambda>j. \<Sum>i<n. \<bar>ts ! j - cs ! i\<bar>) [0..<n]"
proof -
  let ?m = "map (\<lambda>c. map (\<lambda>t. \<bar>t - c\<bar>) ts) cs"
  have "transpose ?m = map (\<lambda>j. map (\<lambda>i. ?m ! i ! j) [0..<length ?m]) [0..<n]"
    using assms by (intro transpose_rectangle) auto
  also have "\<dots> = map (\<lambda>j. map (\<lambda>i. \<bar>ts ! j - cs ! i\<bar>) [0..<n]) [0..<n]"
    using assms by simp
  finally show ?thesis
    by (simp add: comp_def interv_sum_list_conv_sum_set_nat atLeast0LessThan)
qed

lemma abs_td_of_sample:
  assumes "length ts = n" "length cs = n" "0 < n"
  shows "abs_td_of [broadcast (broadcast (-)) [ts] (map (\<lambda>c. [c]) cs)] =
         [[(\<Sum>j<n. \<Sum>i<n. \<bar>ts ! j - cs ! i\<bar>) / real n]]"
  using assms
  by (simp add: abs_td_of_def mean_axis1_keepdims_def sum_axis1_def
      broadcast_row_column [OF assms] comp_def sum_columns [OF assms]
      interv_sum_list_conv_sum_set_nat atLeast0LessThan)

lemma abs_td_of_closed_form:
  assumes "length T = length C"
    and "\<forall>b < length T. length (T ! b) = n \<and> length (C ! b) = n"
    and "0 < n"
  shows "abs_td_of (broadcast3 (-) (map (\<lambda>ts. [ts]) T) (map (map (\<lambda>c. [c])) C)) =
         map (\<lambda>(ts, cs). [(\<Sum>j<n. \<Sum>i<n. \<bar>ts ! j - cs ! i\<bar>) / real n]) (zip T C)"
proof -
  have bc: "broadcast3 (-) (map (\<lambda>ts. [ts]) T) (map (map (\<lambda>c. [c])) C) =
        map2 (broadcast (broadcast (-))) (map (\<lambda>ts. [ts]) T) (map (map (\<lambda>c. [c])) C)"
    using assms(1) by (simp add: broadcast3_def broadcast_def [of "broadcast (broadcast (-))"])
  have one: "abs_td_of [x] = [y] \<Longrightarrow> abs_td_of (x # xs) = y # abs_td_of xs" for x y xs
    by (simp add: abs_td_of_def mean_axis1_keepdims_def sum_axis1_def)
  from assms(1,2) show ?thesis
    unfolding bc
  proof (induction T C rule: list_induct2)
    case Nil
    show ?case by (simp add: abs_td_of_def mean_axis1_keepdims_def sum_axis1_def)
  next
    case (Cons ts T cs C)
    from Cons.prems have len: "length ts = n" "length cs = n" by auto
    from Cons.prems have "\<forall>b<length T. length (T ! b) = n \<and> length (C ! b) = n" by auto
    with Cons.IH have ih: "abs_td_of (map2 (broadcast (broadcast (-))) (map (\<lambda>ts. [ts]) T)
            (map (map (\<lambda>c. [c])) C)) =
          map (\<lambda>(ts, cs). [(\<Sum>j<n. \<Sum>i<n. \<bar>ts ! j - cs ! i\<bar>) / real n]) (zip T C)"
      by simp
    show ?case
      using one [OF abs_td_of_sample [OF len \<open>0 < n\<close>]] by (simp add: ih)
  qed
qed

lemma toy_fqf_fields:
  "buffer (toy_fqf\<lparr>agent_step := a\<rparr>) = new_buffer (PrioritizedReplayBuffer 100 () () (1 / 2) 1 10)"
  "batch_size (toy_fqf\<lparr>agent_step := a\<rparr>) = 32"
  "use_per (toy_fqf\<lparr>agent_step := a\<rparr>) = True"
  "update_interval_target (toy_fqf\<lparr>agent_step := a\<rparr>) = 8"
  "agent_step (toy_fqf\<lparr>agent_step := a\<rparr>) = a"
  "max_grad_norm (toy_fqf\<lparr>agent_step := a\<rparr>) = None"
  "kwargs_update (toy_fqf\<lparr>agent_step := a\<rparr>) = ()"
  "update_target (toy_fqf\<lparr>agent_step := a\<rparr>) = (\<lambda>target online. online)"
  "params (toy_fqf\<lparr>agent_step := a\<rparr>) = (\<lambda>k. 2)"
  "params_target (toy_fqf\<lparr>agent_step := a\<rparr>) = (\<lambda>k. 4)"
  "opt_state (toy_fqf\<lparr>agent_step := a\<rparr>) = 0"
  "params_cum_p (toy_fqf\<lparr>agent_step := a\<rparr>) = 0"
  "opt_state_cum_p (toy_fqf\<lparr>agent_step := a\<rparr>) = 0"
  by (simp_all add: toy_fqf_def)

subsection \<open>Facts about the circular store\<close>








subsection \<open>C1: hard and soft target synchronisation\<close>

text \<open>
  C1. \<^verbatim>\<open>QLearning._update_target\<close> is \<^verbatim>\<open>soft_update\<close> with \<^verbatim>\<open>tau = 1.0\<close>: for every
  pair of target and online parameters it returns the online parameters.
  \<^verbatim>\<open>OffPolicyActorCritic._update_target\<close> is \<^verbatim>\<open>soft_update\<close> with the constructor
  argument \<^verbatim>\<open>tau\<close>: every parameter becomes \<open>(1 - tau) * target + tau * online\<close>, a
  value between the two when \<open>tau\<close> lies between 0 and 1. Both constructors return for
  all arguments on which the constructor of OffPolicyAlgorithm does.
\<close>

theorem C1_target_update:
  assumes "\<not> (use_per' \<and> update_interval' = 0)" and "\<not> (gamma' = 0 \<and> nstep' < 0)"
  shows "(\<exists>q :: ('sp, 's, 'a, 'k) QLearning.
            QLearning_init num_steps' state_space' action_space' seed' gamma' nstep'
              buffer_size' use_per' batch_size' start_steps' update_interval'
              update_interval_target' eps' eps_eval' = Inr q \<and>
            (\<forall>target_params online_params.
               QLearning.update_target q target_params online_params = online_params)) \<and>
         (\<exists>ac :: ('sp, 's, 'a, 'k) OffPolicyActorCritic.
            OffPolicyActorCritic_init num_steps' state_space' action_space' seed' gamma' nstep'
              buffer_size' use_per' batch_size' start_steps' update_interval' tau' = Inr ac \<and>
            (\<forall>target_params online_params.
               OffPolicyActorCritic.update_target ac target_params online_params =
                 soft_update target_params online_params tau' \<and>
               (\<forall>k. OffPolicyActorCritic.update_target ac target_params online_params k =
                      (1 - tau') * target_params k + tau' * online_params k \<and>
                    (0 \<le> tau' \<and> tau' \<le> 1 \<longrightarrow>
                       min (target_params k) (online_params k)
                         \<le> OffPolicyActorCritic.update_target ac target_params online_params k \<and>
                       OffPolicyActorCritic.update_target ac target_params online_params k
                         \<le> max (target_params k) (online_params k)))))"
proof -
  have "\<exists>base :: ('sp, 's, 'a) OffPolicyAlgorithm.
          OffPolicyAlgorithm_init num_steps' state_space' action_space' seed' gamma' nstep'
             buffer_size' use_per' batch_size' start_steps' update_interval' = Inr base"
    using assms by (rule OffPolicyAlgorithm_init_total)
  then obtain base :: "('sp, 's, 'a) OffPolicyAlgorithm" where
    base: "OffPolicyAlgorithm_init num_steps' state_space' action_space' seed' gamma' nstep'
             buffer_size' use_per' batch_size' start_steps' update_interval' = Inr base"
    by blast
  have q: "\<exists>q :: ('sp, 's, 'a, 'k) QLearning.
            QLearning_init num_steps' state_space' action_space' seed' gamma' nstep'
              buffer_size' use_per' batch_size' start_steps' update_interval'
              update_interval_target' eps' eps_eval' = Inr q \<and>
            (\<forall>target_params online_params.
               QLearning.update_target q target_params online_params = online_params)"
    by (simp add: QLearning_init_def base OffPolicyAlgorithm.defs QLearning.defs soft_update_def)
  have ac: "\<exists>ac :: ('sp, 's, 'a, 'k) OffPolicyActorCritic.
            OffPolicyActorCritic_init num_steps' state_space' action_space' seed' gamma' nstep'
              buffer_size' use_per' batch_size' start_steps' update_interval' tau' = Inr ac \<and>
            (\<forall>target_params online_params.
               OffPolicyActorCritic.update_target ac target_params online_params =
                 soft_update target_params online_params tau')"
    by (simp add: OffPolicyActorCritic_init_def base OffPolicyAlgorithm.defs
        OffPolicyActorCritic.defs)
  then obtain ac :: "('sp, 's, 'a, 'k) OffPolicyActorCritic" where
    ac1: "OffPolicyActorCritic_init num_steps' state_space' action_space' seed' gamma' nstep'
              buffer_size' use_per' batch_size' start_steps' update_interval' tau' = Inr ac"
    and ac2: "\<And>target_params online_params.
               OffPolicyActorCritic.update_target ac target_params online_params =
                 soft_update target_params online_params tau'"
    by blast
  have ac3: "OffPolicyActorCritic.update_target ac target_params online_params k =
               (1 - tau') * target_params k + tau' * online_params k"
    for target_params online_params k
    by (simp add: ac2 soft_update_def)
  have ac4: "min (target_params k) (online_params k)
               \<le> OffPolicyActorCritic.update_target ac target_params online_params k \<and>
             OffPolicyActorCritic.update_target ac target_params online_params k
               \<le> max (target_params k) (online_params k)"
    if "0 \<le> tau'" "tau' \<le> 1" for target_params online_params k
    unfolding ac2 using that by (rule soft_update_between)
  from q ac1 ac2 ac3 ac4 show ?thesis by blast
qed

theorem C1_target_update_witness:
  "\<not> (False \<and> (4::int) = 0) \<and> \<not> ((1 / 2 :: real) = 0 \<and> (3::int) < 0) \<and>
   (\<exists>q :: (unit, nat, nat, nat) QLearning.
      QLearning_init 1000 () () 0 (1 / 2) 3 100 False 32 10 4 8000 (1 / 100) (1 / 1000) = Inr q \<and>
      QLearning.update_target q (\<lambda>k. 0) (\<lambda>k. 4) = (\<lambda>k. 4)) \<and>
   (\<exists>ac :: (unit, nat, nat, nat) OffPolicyActorCritic.
      OffPolicyActorCritic_init 1000 () () 0 (1 / 2) 3 100 False 32 10 4 (1 / 4) = Inr ac \<and>
      OffPolicyActorCritic.update_target ac (\<lambda>k. 0) (\<lambda>k. 4) 0 = 1)"
  using C1_target_update [where num_steps' = 1000 and state_space' = "()" and action_space' = "()"
      and seed' = 0 and gamma' = "1 / 2" and nstep' = 3 and buffer_size' = 100 and use_per' = False
      and batch_size' = 32 and start_steps' = 10 and update_interval' = 4
      and update_interval_target' = 8000 and eps' = "1 / 100" and eps_eval' = "1 / 1000"
      and tau' = "1 / 4" and ?'s = nat and ?'a = nat and ?'k = nat]
  by (auto simp: soft_update_def)

subsection \<open>C2: draining the rollout buffer\<close>

text \<open>
  C2, for a buffer size other than zero. For every OnPolicyActorCritic object whose
  \<^verbatim>\<open>buffer_size\<close> is not zero and every value of its \<^verbatim>\<open>env_step\<close> counter,
  \<^verbatim>\<open>is_update()\<close> returns a Boolean, and it is \<^verbatim>\<open>True\<close> exactly when \<^verbatim>\<open>env_step\<close> is
  a multiple of \<^verbatim>\<open>buffer_size\<close>.
\<close>

theorem C2_is_update_multiple:
  "OnPolicyActorCritic.buffer_size self \<noteq> 0 \<Longrightarrow>
   OnPolicyActorCritic_is_update self =
     Inr (OnPolicyActorCritic.buffer_size self dvd env_step self)"
  by (simp add: OnPolicyActorCritic_is_update_def dvd_eq_mod_eq_0)

theorem C2_is_update_multiple_witness:
  "OnPolicyActorCritic.buffer_size on_policy_four \<noteq> 0 \<and>
   OnPolicyActorCritic_is_update on_policy_four = Inr True"
proof -
  have nz: "OnPolicyActorCritic.buffer_size on_policy_four \<noteq> 0"
    by (simp add: on_policy_four_def on_policy_start_def OnPolicyActorCritic_init_fields)
  have "env_step on_policy_four = 8" "OnPolicyActorCritic.buffer_size on_policy_four = 4"
    by (simp_all add: on_policy_four_def on_policy_start_def OnPolicyActorCritic_init_fields)
  with C2_is_update_multiple [OF nz] nz show ?thesis
    by simp
qed

text \<open>
  The claim as stated fails for a buffer of size zero: right after construction
  \<^verbatim>\<open>env_step\<close> is \<open>0\<close>, a multiple of \<open>0\<close>, and \<^verbatim>\<open>is_update()\<close> raises
  \<^verbatim>\<open>ZeroDivisionError\<close> instead of returning \<^verbatim>\<open>True\<close>.
\<close>

theorem C2_is_update_zero_buffer_size:
  "OnPolicyActorCritic.buffer_size on_policy_zero dvd env_step on_policy_zero \<and>
   OnPolicyActorCritic_is_update on_policy_zero = Inl ZeroDivisionError \<and>
   OnPolicyActorCritic_is_update on_policy_zero \<noteq> Inr True"
  by (simp add: on_policy_zero_def OnPolicyActorCritic_is_update_def
      OnPolicyActorCritic_init_fields)

subsection \<open>C3: the buffer an off-policy algorithm constructs\<close>

text \<open>
  C3. Every construction of an OffPolicyAlgorithm either raises \<^verbatim>\<open>ZeroDivisionError\<close>
  (only when \<^verbatim>\<open>use_per\<close> holds and \<^verbatim>\<open>update_interval\<close> is zero, so that \<^verbatim>\<open>beta_steps\<close>
  has no value, or when \<^verbatim>\<open>gamma ** nstep\<close> is zero to a negative power) or returns an
  object whose buffer is, if \<^verbatim>\<open>use_per\<close> is true, a PrioritizedReplayBuffer constructed
  with \<^verbatim>\<open>beta_steps = (num_steps - start_steps) / update_interval\<close>, and otherwise a plain
  ReplayBuffer; both receive the same \<^verbatim>\<open>buffer_size\<close>, \<^verbatim>\<open>state_space\<close>,
  \<^verbatim>\<open>action_space\<close>, \<^verbatim>\<open>gamma\<close> and \<^verbatim>\<open>nstep\<close>.
\<close>

theorem C3_buffer_choice:
  "(case (OffPolicyAlgorithm_init num_steps' state_space' action_space' seed' gamma' nstep'
            buffer_size' use_per' batch_size' start_steps' update_interval'
          :: error + ('sp, 's, 'a) OffPolicyAlgorithm) of
      Inl err \<Rightarrow>
        err = ZeroDivisionError \<and>
        (use_per' \<and> update_interval' = 0 \<or> gamma' = 0 \<and> nstep' < 0)
    | Inr self \<Rightarrow>
        OffPolicyAlgorithm.use_per self = use_per' \<and>
        OffPolicyAlgorithm.buffer self =
          (if use_per'
           then new_buffer
                  (PrioritizedReplayBuffer buffer_size' state_space' action_space' gamma' nstep'
                     (real_of_int (num_steps' - start_steps') / real_of_int update_interval'))
           else new_buffer
                  (ReplayBuffer buffer_size' state_space' action_space' gamma' nstep')))"
  by (simp add: OffPolicyAlgorithm_init_def Let_def Algorithm.defs OffPolicyAlgorithm.defs)

theorem C3_buffer_choice_example:
  "(\<exists>self :: (unit, nat, nat) OffPolicyAlgorithm.
      OffPolicyAlgorithm_init 1000 () () 0 (1 / 2) 3 100 True 32 200 4 = Inr self \<and>
      OffPolicyAlgorithm.buffer self = new_buffer (PrioritizedReplayBuffer 100 () () (1 / 2) 3 200)) \<and>
   (\<exists>self :: (unit, nat, nat) OffPolicyAlgorithm.
      OffPolicyAlgorithm_init 1000 () () 0 (1 / 2) 3 100 False 32 200 4 = Inr self \<and>
      OffPolicyAlgorithm.buffer self = new_buffer (ReplayBuffer 100 () () (1 / 2) 3))"
proof -
  have ok: "\<exists>self :: (unit, nat, nat) OffPolicyAlgorithm.
      OffPolicyAlgorithm_init 1000 () () 0 (1 / 2) 3 100 per 32 200 4 = Inr self" for per
    by (rule OffPolicyAlgorithm_init_total) simp_all
  from ok [of True] obtain s1 :: "(unit, nat, nat) OffPolicyAlgorithm"
    where s1: "OffPolicyAlgorithm_init 1000 () () 0 (1 / 2) 3 100 True 32 200 4 = Inr s1"
    by blast
  from ok [of False] obtain s2 :: "(unit, nat, nat) OffPolicyAlgorithm"
    where s2: "OffPolicyAlgorithm_init 1000 () () 0 (1 / 2) 3 100 False 32 200 4 = Inr s2"
    by blast
  from C3_buffer_choice [where num_steps' = 1000 and state_space' = "()" and action_space' = "()"
      and seed' = 0 and gamma' = "1 / 2" and nstep' = 3 and buffer_size' = 100 and use_per' = True
      and batch_size' = 32 and start_steps' = 200 and update_interval' = 4 and ?'s = nat and ?'a = nat]
  have "OffPolicyAlgorithm.buffer s1 = new_buffer (PrioritizedReplayBuffer 100 () () (1 / 2) 3 200)"
    by (simp add: s1)
  moreover
  from C3_buffer_choice [where num_steps' = 1000 and state_space' = "()" and action_space' = "()"
      and seed' = 0 and gamma' = "1 / 2" and nstep' = 3 and buffer_size' = 100 and use_per' = False
      and batch_size' = 32 and start_steps' = 200 and update_interval' = 4 and ?'s = nat and ?'a = nat]
  have "OffPolicyAlgorithm.buffer s2 = new_buffer (ReplayBuffer 100 () () (1 / 2) 3)"
    by (simp add: s2)
  ultimately show ?thesis using s1 s2 by simp
qed

subsection \<open>C4: priorities are updated with the absolute TD errors\<close>

text \<open>
  C4. Let \<^verbatim>\<open>optimize\<close> hand back, as its fourth result, the auxiliary output of the loss
  function it is given at the parameters it is given. Then in every call of
  \<^verbatim>\<open>FQF.update\<close> the buffer receives \<^verbatim>\<open>sample(batch_size)\<close> and after it, if and only if
  \<^verbatim>\<open>use_per\<close> is true, one call \<^verbatim>\<open>update_priority(abs_td)\<close>, where \<^verbatim>\<open>abs_td\<close> is what
  \<^verbatim>\<open>_loss\<close> computes from the target and the current quantile values: the absolute value
  of target minus current, summed over the first quantile axis and averaged over the
  second.
\<close>

theorem C4_priority_update:
  assumes "\<forall>f opt' st p g kw. snd (snd (snd (optimize util f opt' st p g kw))) = snd (f p)"
    and "sample util (buffer self) (batch_size self) =
             (weight, state, action, reward, done, next_state)"
    and "optimize_cum_p util
           (\<lambda>p. loss_cum_p_fn
                  (self\<lparr>learning_step := learning_step self + 1,
                         buffer := call (buffer self) (Sample (batch_size self))\<rparr>)
                  p (params self) state action)
           (opt_cum_p self) (opt_state_cum_p self) (params_cum_p self) (max_grad_norm self) =
         (opt_state_cum_p1, params_cum_p1, loss_cum_p, u)"
    and "FQF_quantiles util self (params self) (params_target self) params_cum_p1 state action
           reward done next_state = (target_quantile, curr_quantile, cum_p_prime)"
    and "FQF_update util loss_cum_p_fn writer self = (err, self', writer')"
  shows "calls (buffer self') =
           calls (buffer self) @ Sample (batch_size self) #
             (if use_per self
              then [Update_priority (abs_td_of (broadcast3 (-) target_quantile curr_quantile))]
              else []) \<and>
         (\<exists>v. Update_priority v \<in> set (drop (length (calls (buffer self))) (calls (buffer self'))))
           = use_per self \<and>
         (\<forall>T C n.
            target_quantile = map (\<lambda>ts. [ts]) T \<and> curr_quantile = map (map (\<lambda>c. [c])) C \<and>
            length T = length C \<and> 0 < n \<and>
            (\<forall>b < length T. length (T ! b) = n \<and> length (C ! b) = n) \<longrightarrow>
            abs_td_of (broadcast3 (-) target_quantile curr_quantile) =
              map (\<lambda>(ts, cs). [(\<Sum>j<n. \<Sum>i<n. \<bar>ts ! j - cs ! i\<bar>) / real n]) (zip T C))"
proof -
  let ?g = "\<lambda>p. FQF_loss util self p (params_target self) params_cum_p1 state action reward
                  done next_state weight"
  obtain opt_state1 params1 loss abs_td where q: "optimize util ?g
           (opt self) (opt_state self) (params self) (max_grad_norm self)
           (kwargs_update self) = (opt_state1, params1, loss, abs_td)"
    by (metis prod_cases4)
  from assms(1) have "snd (snd (snd (optimize util ?g (opt self) (opt_state self) (params self)
      (max_grad_norm self) (kwargs_update self)))) = snd (?g (params self))"
    by blast
  then have "abs_td = snd (?g (params self))"
    by (simp add: q)
  also have "\<dots> = abs_td_of (broadcast3 (-) target_quantile curr_quantile)"
    by (simp add: FQF_loss_def assms(4) Let_def)
  finally have a: "abs_td = abs_td_of (broadcast3 (-) target_quantile curr_quantile)" .
  note r = FQF_update_unfold [where loss_cum_p_fn = loss_cum_p_fn and writer = writer,
      OF assms(2) assms(3) q]
  from assms(5) r have b: "buffer self' =
      (if use_per self
       then call (call (buffer self) (Sample (batch_size self))) (Update_priority abs_td)
       else call (buffer self) (Sample (batch_size self)))"
    by auto
  have c: "calls (buffer self') =
           calls (buffer self) @ Sample (batch_size self) #
             (if use_per self
              then [Update_priority (abs_td_of (broadcast3 (-) target_quantile curr_quantile))]
              else [])"
    by (simp add: b call_def a)
  have d: "(\<exists>v. Update_priority v \<in> set (drop (length (calls (buffer self))) (calls (buffer self'))))
           = use_per self"
    by (simp add: c)
  have e: "abs_td_of (broadcast3 (-) target_quantile curr_quantile) =
              map (\<lambda>(ts, cs). [(\<Sum>j<n. \<Sum>i<n. \<bar>ts ! j - cs ! i\<bar>) / real n]) (zip T C)"
    if "target_quantile = map (\<lambda>ts. [ts]) T" "curr_quantile = map (map (\<lambda>c. [c])) C"
      "length T = length C" "0 < n" "\<forall>b < length T. length (T ! b) = n \<and> length (C ! b) = n"
    for T C n
    unfolding that(1,2) using that(3,5,4) by (rule abs_td_of_closed_form)
  from c d e show ?thesis by blast
qed

theorem C4_priority_update_witness:
  "(\<forall>f opt' st p g kw. snd (snd (snd (optimize toy_util f opt' st p g kw))) = snd (f p)) \<and>
   sample toy_util (buffer toy_fqf) (batch_size toy_fqf) = ((), 0, [[0]], [[1]], [[0]], 1) \<and>
   FQF_quantiles toy_util toy_fqf (params toy_fqf) (params_target toy_fqf) 1 0 [[0]] [[1]] [[0]] 1 =
     ([[[3 / 2, 5 / 2]]], [[[1 / 2], [3 / 2]]], [[1 / 4, 3 / 4]]) \<and>
   use_per toy_fqf \<and>
   calls (buffer (fst (snd (FQF_update toy_util toy_loss_cum_p None toy_fqf)))) =
     [Sample 32, Update_priority [[2]]] \<and>
   \<not> use_per (toy_fqf\<lparr>use_per := False\<rparr>) \<and>
   calls (buffer (fst (snd (FQF_update toy_util toy_loss_cum_p None
                              (toy_fqf\<lparr>use_per := False\<rparr>))))) =
     [Sample 32] \<and>
   abs_td_of (broadcast3 (-) [[[3 / 2, 5 / 2]]] [[[1 / 2], [3 / 2]]]) =
     [[(\<bar>3 / 2 - 1 / 2\<bar> + \<bar>3 / 2 - 3 / 2\<bar> + (\<bar>5 / 2 - 1 / 2\<bar> + \<bar>5 / 2 - 3 / 2\<bar>)) / 2]]"
proof -
  have aux: "\<forall>f opt' st p g kw. snd (snd (snd (optimize toy_util f opt' st p g kw))) = snd (f p)"
    by (simp add: toy_util_def)
  have smp: "sample toy_util (buffer self) (batch_size self) = ((), 0, [[0]], [[1]], [[0]], 1)"
    for self :: "(unit, nat, nat, real, unit, nat, nat, unit, nat, real) FQF"
    by (simp add: toy_util_def)
  have cum: "optimize_cum_p toy_util f (opt_cum_p self) (opt_state_cum_p self) (params_cum_p self)
      (max_grad_norm self) =
      (Suc (opt_state_cum_p self), params_cum_p self + 1, fst (f (params_cum_p self)), ())"
    for f and self :: "(unit, nat, nat, real, unit, nat, nat, unit, nat, real) FQF"
    by (simp add: toy_util_def)
  have qs: "FQF_quantiles toy_util (toy_fqf\<lparr>use_per := b\<rparr>) (params (toy_fqf\<lparr>use_per := b\<rparr>))
      (params_target (toy_fqf\<lparr>use_per := b\<rparr>)) pc 0 [[0]] [[1]] [[0]] 1 =
     ([[[3 / 2, 5 / 2]]], [[[1 / 2], [3 / 2]]], [[1 / 4, 3 / 4]])" for b pc
    by code_simp
  have upd: "FQF_update toy_util toy_loss_cum_p None (toy_fqf\<lparr>use_per := b\<rparr>) =
      (fst (FQF_update toy_util toy_loss_cum_p None (toy_fqf\<lparr>use_per := b\<rparr>)),
       fst (snd (FQF_update toy_util toy_loss_cum_p None (toy_fqf\<lparr>use_per := b\<rparr>))),
       snd (snd (FQF_update toy_util toy_loss_cum_p None (toy_fqf\<lparr>use_per := b\<rparr>))))" for b
    by simp
  have td: "abs_td_of (broadcast3 (-) [[[3 / 2, 5 / 2]]] [[[1 / 2], [3 / 2]]]) = [[2]]"
    by code_simp
  have f: "use_per (toy_fqf\<lparr>use_per := b\<rparr>) = b" "batch_size (toy_fqf\<lparr>use_per := b\<rparr>) = 32"
    "calls (buffer (toy_fqf\<lparr>use_per := b\<rparr>)) = []" "toy_fqf\<lparr>use_per := True\<rparr> = toy_fqf" for b
    by (simp_all add: toy_fqf_def new_buffer_def)
  have c: "calls (buffer (fst (snd (FQF_update toy_util toy_loss_cum_p None
                (toy_fqf\<lparr>use_per := b\<rparr>))))) =
      [] @ Sample 32 # (if b then [Update_priority [[2]]] else [])" for b
    using C4_priority_update [where util = toy_util and self = "toy_fqf\<lparr>use_per := b\<rparr>"
      and loss_cum_p_fn = toy_loss_cum_p and writer = None, OF aux smp cum qs upd,
      THEN conjunct1]
    unfolding td f .
  have 1: "calls (buffer (fst (snd (FQF_update toy_util toy_loss_cum_p None toy_fqf)))) =
     [Sample 32, Update_priority [[2]]]"
    using c [of True] by (simp add: f)
  have 2: "calls (buffer (fst (snd (FQF_update toy_util toy_loss_cum_p None
                              (toy_fqf\<lparr>use_per := False\<rparr>))))) = [Sample 32]"
    using c [of False] by simp
  have 3: "use_per toy_fqf" "\<not> use_per (toy_fqf\<lparr>use_per := False\<rparr>)"
    by (simp_all add: toy_fqf_def)
  have shape: "[[[3 / 2, 5 / 2]]] = map (\<lambda>ts. [ts]) [[3 / 2, 5 / 2 :: real]] \<and>
      [[[1 / 2], [3 / 2]]] = map (map (\<lambda>c. [c])) [[1 / 2, 3 / 2 :: real]] \<and>
      length [[3 / 2, 5 / 2 :: real]] = length [[1 / 2, 3 / 2 :: real]] \<and> (0::nat) < 2 \<and>
      (\<forall>b < length [[3 / 2, 5 / 2 :: real]].
         length ([[3 / 2, 5 / 2 :: real]] ! b) = 2 \<and> length ([[1 / 2, 3 / 2 :: real]] ! b) = 2)"
    by simp
  have 4: "abs_td_of (broadcast3 (-) [[[3 / 2, 5 / 2]]] [[[1 / 2], [3 / 2]]]) =
     map (\<lambda>(ts, cs). [(\<Sum>j<2. \<Sum>i<2. \<bar>ts ! j - cs ! i\<bar>) / real 2])
       (zip [[3 / 2, 5 / 2]] [[1 / 2, 3 / 2]])"
    using C4_priority_update [where util = toy_util and self = "toy_fqf\<lparr>use_per := True\<rparr>"
      and loss_cum_p_fn = toy_loss_cum_p and writer = None, OF aux smp cum qs upd,
      THEN conjunct2, THEN conjunct2, rule_format, OF shape] .
  have 5: "abs_td_of (broadcast3 (-) [[[3 / 2, 5 / 2]]] [[[1 / 2], [3 / 2]]]) =
     [[(\<bar>3 / 2 - 1 / 2\<bar> + \<bar>3 / 2 - 3 / 2\<bar> + (\<bar>5 / 2 - 1 / 2\<bar> + \<bar>5 / 2 - 3 / 2\<bar>)) / 2]]"
    unfolding 4 by (simp add: lessThan_Suc numeral_2_eq_2)
  from aux smp [of toy_fqf] qs [of True 1] 1 2 3 5 show ?thesis
    by (simp only: f simp_thms)
qed

subsection \<open>C5: the target network is synchronised at intervals\<close>

text \<open>
  C5. In every call of \<^verbatim>\<open>FQF.update\<close>, \<^verbatim>\<open>params_target\<close> is reassigned, to
  \<^verbatim>\<open>_update_target(params_target, params)\<close> with the new online parameters, only when
  \<^verbatim>\<open>agent_step\<close> is a multiple of \<^verbatim>\<open>update_interval_target\<close>; in every other call it is
  left unchanged. The online parameters, both optimizer states and the fraction proposal
  parameters are assigned what the optimizers return in every call (also in a call that
  ends with \<^verbatim>\<open>ZeroDivisionError\<close> because \<^verbatim>\<open>update_interval_target\<close> is zero).
\<close>

theorem C5_target_sync:
  assumes "sample util (buffer self) (batch_size self) =
             (weight, state, action, reward, done, next_state)"
    and "optimize_cum_p util
           (\<lambda>p. loss_cum_p_fn
                  (self\<lparr>learning_step := learning_step self + 1,
                         buffer := call (buffer self) (Sample (batch_size self))\<rparr>)
                  p (params self) state action)
           (opt_cum_p self) (opt_state_cum_p self) (params_cum_p self) (max_grad_norm self) =
         (opt_state_cum_p1, params_cum_p1, loss_cum_p, u)"
    and "optimize util
           (\<lambda>p. FQF_loss util self p (params_target self) params_cum_p1 state action reward
                  done next_state weight)
           (opt self) (opt_state self) (params self) (max_grad_norm self)
           (kwargs_update self) =
         (opt_state1, params1, loss, abs_td)"
    and "FQF_update util loss_cum_p_fn writer self = (err, self', writer')"
  shows "params_target self' =
           (if update_interval_target self \<noteq> 0 \<and>
               agent_step self mod update_interval_target self = 0
            then update_target self (params_target self) params1
            else params_target self) \<and>
         (params_target self' \<noteq> params_target self \<longrightarrow>
            update_interval_target self dvd agent_step self) \<and>
         params self' = params1 \<and>
         opt_state self' = opt_state1 \<and>
         params_cum_p self' = params_cum_p1 \<and>
         opt_state_cum_p self' = opt_state_cum_p1 \<and>
         err = (if update_interval_target self = 0 then Some ZeroDivisionError else None)"
proof -
  note r = FQF_update_unfold [where loss_cum_p_fn = loss_cum_p_fn and writer = writer,
      OF assms(1) assms(2) assms(3)]
  from assms(4) r have self': "self' =
      self\<lparr>learning_step := learning_step self + 1,
           buffer := (if use_per self
                      then call (call (buffer self) (Sample (batch_size self)))
                             (Update_priority abs_td)
                      else call (buffer self) (Sample (batch_size self))),
           opt_state_cum_p := opt_state_cum_p1, params_cum_p := params_cum_p1,
           opt_state := opt_state1, params := params1,
           params_target :=
             (if update_interval_target self \<noteq> 0 \<and>
                 agent_step self mod update_interval_target self = 0
              then update_target self (params_target self) params1
              else params_target self)\<rparr>"
    and err: "err = (if update_interval_target self = 0 then Some ZeroDivisionError else None)"
    by simp_all
  have t: "params_target self' =
           (if update_interval_target self \<noteq> 0 \<and>
               agent_step self mod update_interval_target self = 0
            then update_target self (params_target self) params1
            else params_target self)"
    by (simp add: self')
  have "update_interval_target self dvd agent_step self"
    if "params_target self' \<noteq> params_target self"
    using that unfolding t by (auto simp: dvd_eq_mod_eq_0 split: if_splits)
  moreover have "params self' = params1" "opt_state self' = opt_state1"
    "params_cum_p self' = params_cum_p1" "opt_state_cum_p self' = opt_state_cum_p1"
    by (simp_all add: self')
  ultimately show ?thesis
    using t err by blast
qed

theorem C5_target_sync_witness:
  "sample toy_util (buffer toy_fqf) (batch_size toy_fqf) = ((), 0, [[0]], [[1]], [[0]], 1) \<and>
   agent_step (toy_fqf\<lparr>agent_step := 16\<rparr>) mod update_interval_target toy_fqf = 0 \<and>
   params_target toy_fqf ''feature'' = 4 \<and>
   params_target (fst (snd (FQF_update toy_util toy_loss_cum_p None (toy_fqf\<lparr>agent_step := 16\<rparr>))))
     ''feature'' = 3 \<and>
   params (fst (snd (FQF_update toy_util toy_loss_cum_p None (toy_fqf\<lparr>agent_step := 16\<rparr>))))
     ''feature'' = 3 \<and>
   agent_step (toy_fqf\<lparr>agent_step := 17\<rparr>) mod update_interval_target toy_fqf = 1 \<and>
   params_target (fst (snd (FQF_update toy_util toy_loss_cum_p None (toy_fqf\<lparr>agent_step := 17\<rparr>))))
     ''feature'' = 4 \<and>
   params (fst (snd (FQF_update toy_util toy_loss_cum_p None (toy_fqf\<lparr>agent_step := 17\<rparr>))))
     ''feature'' = 3 \<and>
   params_cum_p (fst (snd (FQF_update toy_util toy_loss_cum_p None (toy_fqf\<lparr>agent_step := 17\<rparr>))))
     = 1"
proof -
  have smp: "sample toy_util b n = ((), 0, [[0]], [[1]], [[0]], 1)" for b n
    by (simp add: toy_util_def)
  have cum: "optimize_cum_p toy_util f1 o1 st1 p1 g1 = (Suc st1, p1 + 1, fst (f1 p1), ())"
    for f1 o1 st1 p1 g1
    by (simp add: toy_util_def)
  have opt: "optimize toy_util f2 o2 st2 p2 g2 kw =
      (Suc st2, (\<lambda>k. p2 k + 1), fst (f2 p2), snd (f2 p2))" for f2 o2 st2 p2 g2 kw
    by (simp add: toy_util_def)
  have upd: "FQF_update toy_util toy_loss_cum_p None (toy_fqf\<lparr>agent_step := a\<rparr>) =
      (fst (FQF_update toy_util toy_loss_cum_p None (toy_fqf\<lparr>agent_step := a\<rparr>)),
       fst (snd (FQF_update toy_util toy_loss_cum_p None (toy_fqf\<lparr>agent_step := a\<rparr>))),
       snd (snd (FQF_update toy_util toy_loss_cum_p None (toy_fqf\<lparr>agent_step := a\<rparr>))))" for a
    by simp
  have t: "params_target (fst (snd (FQF_update toy_util toy_loss_cum_p None
                (toy_fqf\<lparr>agent_step := a\<rparr>)))) =
       (if (8::int) \<noteq> 0 \<and> a mod 8 = 0
        then (\<lambda>target online. online) (\<lambda>k. 4) (\<lambda>k. (\<lambda>k. 2) k + 1) else (\<lambda>k. 4)) \<and>
     params (fst (snd (FQF_update toy_util toy_loss_cum_p None
                (toy_fqf\<lparr>agent_step := a\<rparr>)))) = (\<lambda>k. (\<lambda>k. 2) k + 1) \<and>
     params_cum_p (fst (snd (FQF_update toy_util toy_loss_cum_p None
                (toy_fqf\<lparr>agent_step := a\<rparr>)))) = 0 + 1" for a
    using C5_target_sync [where util = toy_util and self = "toy_fqf\<lparr>agent_step := a\<rparr>"
      and loss_cum_p_fn = toy_loss_cum_p and writer = None, OF smp cum opt upd]
    unfolding toy_fqf_fields by (elim conjE) (intro conjI)
  have pt: "params_target (fst (snd (FQF_update toy_util toy_loss_cum_p None
                (toy_fqf\<lparr>agent_step := a\<rparr>)))) =
     (if (8::int) \<noteq> 0 \<and> a mod 8 = 0
      then (\<lambda>target online. online) (\<lambda>k. 4) (\<lambda>k. (\<lambda>k. 2) k + 1) else (\<lambda>k. 4))" for a
    using t [of a] by (rule conjunct1)
  have p: "params (fst (snd (FQF_update toy_util toy_loss_cum_p None
                (toy_fqf\<lparr>agent_step := a\<rparr>)))) = (\<lambda>k. (\<lambda>k. 2) k + 1)" for a
    using t [of a] by (elim conjE)
  have pc: "params_cum_p (fst (snd (FQF_update toy_util toy_loss_cum_p None
                (toy_fqf\<lparr>agent_step := a\<rparr>)))) = 0 + 1" for a
    using t [of a] by (elim conjE)
  show ?thesis
    unfolding pt p pc by (simp add: smp) (simp add: toy_fqf_def)
qed

subsection \<open>C6: the bootstrap discount\<close>

text \<open>
  C6. Every construction of an OffPolicyAlgorithm whose arguments do not raise returns an
  object whose \<^verbatim>\<open>discount\<close> is \<^verbatim>\<open>gamma\<close> raised to the power \<^verbatim>\<open>nstep\<close>. For a
  non-negative \<^verbatim>\<open>nstep\<close> this is the factor by which the n-step target over \<^verbatim>\<open>nstep\<close>
  consecutive rewards weighs the value estimate it bootstraps from.
\<close>

theorem C6_discount:
  assumes "\<not> (use_per' \<and> update_interval' = 0)" and "\<not> (gamma' = 0 \<and> nstep' < 0)"
  shows "\<exists>self :: ('sp, 's, 'a) OffPolicyAlgorithm.
           OffPolicyAlgorithm_init num_steps' state_space' action_space' seed' gamma' nstep'
             buffer_size' use_per' batch_size' start_steps' update_interval' = Inr self \<and>
           OffPolicyAlgorithm.discount self = power_int gamma' nstep' \<and>
           (0 \<le> nstep' \<longrightarrow>
              OffPolicyAlgorithm.discount self = gamma' ^ nat nstep' \<and>
              (\<forall>rewards v. length rewards = nat nstep' \<longrightarrow>
                 nstep_target gamma' rewards v =
                   nstep_return gamma' rewards + OffPolicyAlgorithm.discount self * v))"
proof -
  have "\<exists>self :: ('sp, 's, 'a) OffPolicyAlgorithm.
          OffPolicyAlgorithm_init num_steps' state_space' action_space' seed' gamma' nstep'
             buffer_size' use_per' batch_size' start_steps' update_interval' = Inr self"
    using assms by (rule OffPolicyAlgorithm_init_total)
  then obtain self :: "('sp, 's, 'a) OffPolicyAlgorithm" where
    self: "OffPolicyAlgorithm_init num_steps' state_space' action_space' seed' gamma' nstep'
             buffer_size' use_per' batch_size' start_steps' update_interval' = Inr self"
    by blast
  have d: "OffPolicyAlgorithm.discount self = power_int gamma' nstep'"
    using OffPolicyAlgorithm_init_Inr(1) [OF self]
    by (simp add: Algorithm.defs OffPolicyAlgorithm.defs)
  have p: "OffPolicyAlgorithm.discount self = gamma' ^ nat nstep'" if "0 \<le> nstep'"
    using that by (simp add: d power_int_def)
  have "nstep_target gamma' rewards v = nstep_return gamma' rewards + OffPolicyAlgorithm.discount self * v"
    if "0 \<le> nstep'" "length rewards = nat nstep'" for rewards v
    using that by (simp add: nstep_target_return p)
  with self d p show ?thesis by blast
qed

theorem C6_discount_witness:
  "\<not> (False \<and> (4::int) = 0) \<and> \<not> ((1 / 2 :: real) = 0 \<and> (3::int) < 0) \<and>
   (\<exists>self :: (unit, nat, nat) OffPolicyAlgorithm.
      OffPolicyAlgorithm_init 1000 () () 0 (1 / 2) 3 100 False 32 10 4 = Inr self \<and>
      OffPolicyAlgorithm.discount self = 1 / 8 \<and>
      nstep_target (1 / 2) [1, 2, 4] 8 = nstep_return (1 / 2) [1, 2, 4] + OffPolicyAlgorithm.discount self * 8)"
proof -
  from C6_discount [where num_steps' = 1000 and state_space' = "()" and action_space' = "()"
      and seed' = 0 and gamma' = "1 / 2" and nstep' = 3 and buffer_size' = 100 and use_per' = False
      and batch_size' = 32 and start_steps' = 10 and update_interval' = 4 and ?'s = nat and ?'a = nat]
  obtain self :: "(unit, nat, nat) OffPolicyAlgorithm" where
    "OffPolicyAlgorithm_init 1000 () () 0 (1 / 2) 3 100 False 32 10 4 = Inr self"
    "OffPolicyAlgorithm.discount self = power_int (1 / 2) 3"
    "\<forall>rewards v. length rewards = nat 3 \<longrightarrow>
        nstep_target (1 / 2) rewards v = nstep_return (1 / 2) rewards + OffPolicyAlgorithm.discount self * v"
    by auto
  then show ?thesis
    by (auto simp: power_int_def power3_eq_cube intro!: exI [of _ self])
qed

subsection \<open>C7: the replay buffer keeps the most recent transitions\<close>




subsection \<open>C8: the warm-up phase\<close>

text \<open>
  C8, with \<^verbatim>\<open>is_update()\<close> returning \<^verbatim>\<open>False\<close> for an update interval other than
  zero. In a call of \<^verbatim>\<open>OffPolicyAlgorithm.step\<close> in which the incremented
  \<^verbatim>\<open>env_step\<close> is at most \<^verbatim>\<open>start_steps\<close>, the action given to the environment and
  appended to the buffer is the one drawn by \<^verbatim>\<open>env.action_space.sample()\<close>, and the
  result does not depend on \<^verbatim>\<open>explore\<close>. Whenever \<^verbatim>\<open>env_step\<close> is strictly less than
  \<^verbatim>\<open>start_steps\<close>, \<^verbatim>\<open>is_update()\<close> does not return \<^verbatim>\<open>True\<close>, and it returns
  \<^verbatim>\<open>False\<close> if \<^verbatim>\<open>update_interval\<close> is not zero.
\<close>

theorem C8_warm_up:
  "(env_step self + 1 \<le> start_steps self \<longrightarrow>
      action_space_sample env e = (action, e1) \<longrightarrow>
      step env e1 action = ((next_state, reward, done), e2) \<longrightarrow>
      (\<exists>res self' e'.
          OffPolicyAlgorithm_step explore_abs self env e state t = Inr (res, self', e') \<and>
          calls (OffPolicyAlgorithm.buffer self') = calls (OffPolicyAlgorithm.buffer self) @
            [Replay_append state action reward
               (if t + 1 = max_episode_steps env e2 then False else done) next_state done]) \<and>
      OffPolicyAlgorithm_step explore_abs self env e state t =
        OffPolicyAlgorithm_step explore_abs2 self env e state t) \<and>
   (env_step self < start_steps self \<longrightarrow>
      OffPolicyAlgorithm_is_update self \<noteq> Inr True \<and>
      (update_interval self \<noteq> 0 \<longrightarrow> OffPolicyAlgorithm_is_update self = Inr False))"
proof (intro conjI impI)
  assume w: "env_step self + 1 \<le> start_steps self"
    and a: "action_space_sample env e = (action, e1)"
    and s: "step env e1 action = ((next_state, reward, done), e2)"
  note eq = OffPolicyAlgorithm_step_warm_up [OF w a s]
  show "\<exists>res self' e'.
          OffPolicyAlgorithm_step explore_abs self env e state t = Inr (res, self', e') \<and>
          calls (OffPolicyAlgorithm.buffer self') = calls (OffPolicyAlgorithm.buffer self) @
            [Replay_append state action reward
               (if t + 1 = max_episode_steps env e2 then False else done) next_state done]"
    unfolding eq [of explore_abs] by (cases "done") (simp_all add: Let_def call_def)
  show "OffPolicyAlgorithm_step explore_abs self env e state t =
        OffPolicyAlgorithm_step explore_abs2 self env e state t"
    unfolding eq [of explore_abs] eq [of explore_abs2] ..
next
  assume "env_step self < start_steps self"
  then show "OffPolicyAlgorithm_is_update self \<noteq> Inr True"
    by (simp add: OffPolicyAlgorithm_is_update_def)
next
  assume "env_step self < start_steps self" "update_interval self \<noteq> 0"
  then show "OffPolicyAlgorithm_is_update self = Inr False"
    by (simp add: OffPolicyAlgorithm_is_update_def)
qed

theorem C8_warm_up_witness:
  "env_step off_policy_warm + 1 \<le> start_steps off_policy_warm \<and>
   action_space_sample toy_env 0 = (7, 0) \<and>
   step toy_env 0 7 = ((7, 1, True), 1) \<and>
   (\<exists>res self' e'.
      OffPolicyAlgorithm_step toy_explore off_policy_warm toy_env 0 5 0 = Inr (res, self', e') \<and>
      calls (OffPolicyAlgorithm.buffer self') = [Replay_append 5 7 1 False 7 True]) \<and>
   env_step off_policy_warm < start_steps off_policy_warm \<and>
   update_interval off_policy_warm \<noteq> 0 \<and>
   OffPolicyAlgorithm_is_update off_policy_warm = Inr False"
  using C8_warm_up [of off_policy_warm toy_env 0 7 0 7 1 True 1 toy_explore 5 0 toy_explore]
  by (simp add: off_policy_warm_def toy_env_def new_buffer_def)

text \<open>
  The claim as stated fails for \<^verbatim>\<open>update_interval = 0\<close>, which the constructor accepts when
  \<^verbatim>\<open>use_per\<close> is false: \<^verbatim>\<open>is_update()\<close> evaluates the modulo first and raises
  \<^verbatim>\<open>ZeroDivisionError\<close> instead of returning \<^verbatim>\<open>False\<close>.
\<close>

theorem C8_is_update_zero_interval:
  "OffPolicyAlgorithm_init 1000 () () 0 (1 / 2) 3 100 False 32 10 0 = Inr off_policy_zero_interval \<and>
   env_step off_policy_zero_interval < start_steps off_policy_zero_interval \<and>
   OffPolicyAlgorithm_is_update off_policy_zero_interval = Inl ZeroDivisionError \<and>
   OffPolicyAlgorithm_is_update off_policy_zero_interval \<noteq> Inr False"
  by (simp add: off_policy_examples)
     (simp add: off_policy_zero_interval_def off_policy_warm_def OffPolicyAlgorithm_is_update_def)

subsection \<open>C9: time-limit terminations are stored as non-terminal\<close>

text \<open>
  C9. In every call of \<^verbatim>\<open>OnPolicyActorCritic.step\<close> and of \<^verbatim>\<open>OffPolicyAlgorithm.step\<close>
  that obtains an action, the call appends one transition to the buffer, and its mask is
  \<^verbatim>\<open>False\<close> when the incremented episode step counter \<open>t + 1\<close> equals
  \<^verbatim>\<open>env._max_episode_steps\<close>, whatever \<^verbatim>\<open>done\<close> the environment reported; otherwise the
  mask is that \<^verbatim>\<open>done\<close>.
\<close>

theorem C9_mask:
  "(OnPolicyActorCritic_explore explore_abs params_actor
        (on\<lparr>env_step := env_step on + 1\<rparr>) state = Inr ((action, log_pi), on2) \<longrightarrow>
    step env e action = ((next_state, reward, done), e1) \<longrightarrow>
    (\<exists>res on' e'.
       OnPolicyActorCritic_step explore_abs params_actor on env e state t = Inr (res, on', e') \<and>
       calls (OnPolicyActorCritic.buffer on') = calls (OnPolicyActorCritic.buffer on) @
         [Rollout_append state action reward
            (if t + 1 = max_episode_steps env e1 then False else done) log_pi next_state])) \<and>
   ((if env_step off + 1 \<le> start_steps off
     then action_space_sample env2 f = (action2, f1) \<and> off2 = off\<lparr>env_step := env_step off + 1\<rparr>
     else explore_abs2 (off\<lparr>env_step := env_step off + 1\<rparr>) state2 = Inr (action2, off2) \<and> f1 = f) \<longrightarrow>
    step env2 f1 action2 = ((next_state2, reward2, done2), f2) \<longrightarrow>
    (\<exists>res off' f'.
       OffPolicyAlgorithm_step explore_abs2 off env2 f state2 t2 = Inr (res, off', f') \<and>
       calls (OffPolicyAlgorithm.buffer off') = calls (OffPolicyAlgorithm.buffer off2) @
         [Replay_append state2 action2 reward2
            (if t2 + 1 = max_episode_steps env2 f2 then False else done2) next_state2 done2]))"
proof (intro conjI impI)
  assume x: "OnPolicyActorCritic_explore explore_abs params_actor
        (on\<lparr>env_step := env_step on + 1\<rparr>) state = Inr ((action, log_pi), on2)"
    and s: "step env e action = ((next_state, reward, done), e1)"
  have b: "OnPolicyActorCritic.buffer on2 = OnPolicyActorCritic.buffer on"
    using OnPolicyActorCritic_explore_buffer [OF x] by simp
  show "\<exists>res on' e'.
       OnPolicyActorCritic_step explore_abs params_actor on env e state t = Inr (res, on', e') \<and>
       calls (OnPolicyActorCritic.buffer on') = calls (OnPolicyActorCritic.buffer on) @
         [Rollout_append state action reward
            (if t + 1 = max_episode_steps env e1 then False else done) log_pi next_state]"
    unfolding OnPolicyActorCritic_step_explore [OF x s]
    by (cases "done") (simp_all add: Let_def call_def b)
next
  assume c: "if env_step off + 1 \<le> start_steps off
     then action_space_sample env2 f = (action2, f1) \<and> off2 = off\<lparr>env_step := env_step off + 1\<rparr>
     else explore_abs2 (off\<lparr>env_step := env_step off + 1\<rparr>) state2 = Inr (action2, off2) \<and> f1 = f"
    and s: "step env2 f1 action2 = ((next_state2, reward2, done2), f2)"
  show "\<exists>res off' f'.
       OffPolicyAlgorithm_step explore_abs2 off env2 f state2 t2 = Inr (res, off', f') \<and>
       calls (OffPolicyAlgorithm.buffer off') = calls (OffPolicyAlgorithm.buffer off2) @
         [Replay_append state2 action2 reward2
            (if t2 + 1 = max_episode_steps env2 f2 then False else done2) next_state2 done2]"
  proof (cases "env_step off + 1 \<le> start_steps off")
    case True
    with c have a: "action_space_sample env2 f = (action2, f1)"
      and o: "off2 = off\<lparr>env_step := env_step off + 1\<rparr>" by simp_all
    show ?thesis
      unfolding OffPolicyAlgorithm_step_warm_up [OF True a s] o
      by (cases done2) (simp_all add: Let_def call_def)
  next
    case False
    with c have x: "explore_abs2 (off\<lparr>env_step := env_step off + 1\<rparr>) state2 = Inr (action2, off2)"
      and f: "f1 = f" by simp_all
    show ?thesis
      using OffPolicyAlgorithm_step_explore [where explore_abs = explore_abs2, OF False x s [unfolded f]]
      by (cases done2) (simp_all add: Let_def call_def)
  qed
qed

theorem C9_mask_witness:
  "OnPolicyActorCritic_explore toy_explore_abs ()
      (on_policy_start\<lparr>env_step := env_step on_policy_start + 1\<rparr>) 5 =
     Inr ((7, - 1), on_policy_start\<lparr>env_step := 1, Algorithm.rng := (0, 1)\<rparr>) \<and>
   step toy_env 0 7 = ((7, 1, True), 1) \<and>
   (\<exists>res on' e'.
      OnPolicyActorCritic_step toy_explore_abs () on_policy_start toy_env 0 5 0 = Inr (res, on', e') \<and>
      calls (OnPolicyActorCritic.buffer on') = [Rollout_append 5 7 1 False (- 1) 7]) \<and>
   env_step off_policy_warm + 1 \<le> start_steps off_policy_warm \<and>
   action_space_sample toy_env 0 = (7, 0) \<and>
   (\<exists>res off' f'.
      OffPolicyAlgorithm_step toy_explore off_policy_warm toy_env 0 5 0 = Inr (res, off', f') \<and>
      calls (OffPolicyAlgorithm.buffer off') = [Replay_append 5 7 1 False 7 True])"
proof -
  have x: "OnPolicyActorCritic_explore toy_explore_abs ()
      (on_policy_start\<lparr>env_step := env_step on_policy_start + 1\<rparr>) 5 =
     Inr ((7, - 1), on_policy_start\<lparr>env_step := 1, Algorithm.rng := (0, 1)\<rparr>)"
    by (simp add: OnPolicyActorCritic_explore_def on_policy_start_def
        OnPolicyActorCritic_init_fields next_key_def toy_explore_abs_def)
  have s: "step toy_env 0 7 = ((7, 1, True), 1)"
    by (simp add: toy_env_def)
  have w: "env_step off_policy_warm + 1 \<le> start_steps off_policy_warm"
    by (simp add: off_policy_warm_def)
  have a: "action_space_sample toy_env 0 = (7, 0)"
    by (simp add: toy_env_def)
  have m: "max_episode_steps toy_env (Suc 0) = 1"
    by (simp add: toy_env_def)
  have b1: "calls (OnPolicyActorCritic.buffer on_policy_start) = []"
    by (simp add: on_policy_start_def OnPolicyActorCritic_init_fields new_buffer_def)
  have b2: "calls (OffPolicyAlgorithm.buffer off_policy_warm) = []"
    by (simp add: off_policy_warm_def new_buffer_def)
  from C9_mask [where explore_abs = toy_explore_abs and params_actor = "()"
      and on = on_policy_start and state = 5 and action = 7 and log_pi = "- 1"
      and ?on2.0 = "on_policy_start\<lparr>env_step := 1, Algorithm.rng := (0, 1)\<rparr>"
      and env = toy_env and e = 0 and next_state = 7 and reward = 1 and ?done = True and ?e1.0 = 1
      and t = 0 and off = off_policy_warm and ?env2.0 = toy_env and f = 0 and ?action2.0 = 7
      and ?f1.0 = 0 and ?off2.0 = "off_policy_warm\<lparr>env_step := env_step off_policy_warm + 1\<rparr>"
      and ?explore_abs2.0 = toy_explore and ?state2.0 = 5 and ?next_state2.0 = 7
      and ?reward2.0 = 1 and ?done2.0 = True and ?f2.0 = 1 and ?t2.0 = 0]
  show ?thesis
    using x s w a by (simp add: m b1 b2)
qed

subsection \<open>C10: the assertion on \<^verbatim>\<open>loss_type\<close>\<close>

text \<open>
  C10. Constructing an FQF object with a \<^verbatim>\<open>loss_type\<close> other than \<^verbatim>\<open>"l2"\<close> or
  \<^verbatim>\<open>"huber"\<close> raises \<^verbatim>\<open>AssertionError\<close>, whatever the constructor of the parent class and
  the library would do: nothing else has been initialised. For \<^verbatim>\<open>"l2"\<close> and \<^verbatim>\<open>"huber"\<close>
  construction proceeds: an exception of the parent constructor is passed on, a zero
  \<^verbatim>\<open>batch_size\<close> raises \<^verbatim>\<open>ZeroDivisionError\<close>, and otherwise an object with that
  \<^verbatim>\<open>loss_type\<close> is returned.
\<close>

theorem C10_loss_type_assertion:
  "(loss_type' \<notin> set [''l2'', ''huber''] \<longrightarrow>
      (FQF_init lib QLearning_init_abs num_agent_steps' state_space' action_space' seed'
         max_grad_norm' gamma' nstep' buffer_size' use_per' batch_size' start_steps'
         update_interval' update_interval_target' eps' eps_eval' eps_decay_steps' fn' lr'
         lr_cum_p' units' num_quantiles' num_cosines' loss_type' dueling_net' double_q'
       :: error + ('sp, 's, 'a, 'w, 'kw, 'sb, 'ft, 'o, 'os, 'pc) FQF) =
      Inl AssertionError) \<and>
   (loss_type' \<in> set [''l2'', ''huber''] \<longrightarrow>
      (case QLearning_init_abs num_agent_steps' state_space' action_space' seed'
              max_grad_norm' gamma' nstep' buffer_size' batch_size' use_per' start_steps'
              update_interval' update_interval_target' eps' eps_eval' eps_decay_steps' of
         Inl err \<Rightarrow>
           FQF_init lib QLearning_init_abs num_agent_steps' state_space' action_space' seed'
             max_grad_norm' gamma' nstep' buffer_size' use_per' batch_size' start_steps'
             update_interval' update_interval_target' eps' eps_eval' eps_decay_steps' fn' lr'
             lr_cum_p' units' num_quantiles' num_cosines' loss_type' dueling_net' double_q' =
           Inl err
       | Inr base \<Rightarrow>
           if batch_size' = 0
           then FQF_init lib QLearning_init_abs num_agent_steps' state_space' action_space'
                  seed' max_grad_norm' gamma' nstep' buffer_size' use_per' batch_size'
                  start_steps' update_interval' update_interval_target' eps' eps_eval'
                  eps_decay_steps' fn' lr' lr_cum_p' units' num_quantiles' num_cosines'
                  loss_type' dueling_net' double_q' =
                Inl ZeroDivisionError
           else \<exists>self.
                  FQF_init lib QLearning_init_abs num_agent_steps' state_space' action_space'
                    seed' max_grad_norm' gamma' nstep' buffer_size' use_per' batch_size'
                    start_steps' update_interval' update_interval_target' eps' eps_eval'
                    eps_decay_steps' fn' lr' lr_cum_p' units' num_quantiles' num_cosines'
                    loss_type' dueling_net' double_q' =
                  Inr self \<and>
                  loss_type self = loss_type' \<and> num_quantiles self = num_quantiles' \<and>
                  double_q self = double_q' \<and> params_target self = params self))"
proof (intro conjI impI)
  assume "loss_type' \<notin> set [''l2'', ''huber'']"
  then show "FQF_init lib QLearning_init_abs num_agent_steps' state_space' action_space' seed'
        max_grad_norm' gamma' nstep' buffer_size' use_per' batch_size' start_steps'
        update_interval' update_interval_target' eps' eps_eval' eps_decay_steps' fn' lr'
        lr_cum_p' units' num_quantiles' num_cosines' loss_type' dueling_net' double_q' =
      Inl AssertionError"
    by (simp add: FQF_init_def)
next
  assume l: "loss_type' \<in> set [''l2'', ''huber'']"
  show "case QLearning_init_abs num_agent_steps' state_space' action_space' seed'
              max_grad_norm' gamma' nstep' buffer_size' batch_size' use_per' start_steps'
              update_interval' update_interval_target' eps' eps_eval' eps_decay_steps' of
         Inl err \<Rightarrow>
           FQF_init lib QLearning_init_abs num_agent_steps' state_space' action_space' seed'
             max_grad_norm' gamma' nstep' buffer_size' use_per' batch_size' start_steps'
             update_interval' update_interval_target' eps' eps_eval' eps_decay_steps' fn' lr'
             lr_cum_p' units' num_quantiles' num_cosines' loss_type' dueling_net' double_q' =
           Inl err
       | Inr base \<Rightarrow>
           if batch_size' = 0
           then FQF_init lib QLearning_init_abs num_agent_steps' state_space' action_space'
                  seed' max_grad_norm' gamma' nstep' buffer_size' use_per' batch_size'
                  start_steps' update_interval' update_interval_target' eps' eps_eval'
                  eps_decay_steps' fn' lr' lr_cum_p' units' num_quantiles' num_cosines'
                  loss_type' dueling_net' double_q' =
                Inl ZeroDivisionError
           else \<exists>self.
                  FQF_init lib QLearning_init_abs num_agent_steps' state_space' action_space'
                    seed' max_grad_norm' gamma' nstep' buffer_size' use_per' batch_size'
                    start_steps' update_interval' update_interval_target' eps' eps_eval'
                    eps_decay_steps' fn' lr' lr_cum_p' units' num_quantiles' num_cosines'
                    loss_type' dueling_net' double_q' =
                  Inr self \<and>
                  loss_type self = loss_type' \<and> num_quantiles self = num_quantiles' \<and>
                  double_q self = double_q' \<and> params_target self = params self"
    using l
    by (simp add: FQF_init_def Let_def split_def base_class_QLearning.defs FQF.defs
        split: sum.split)
qed

theorem C10_loss_type_assertion_witness:
  "''l1'' \<notin> set [''l2'', ''huber''] \<and>
   toy_QLearning_init 1000 () () 0 None (1 / 2) 1 100 32 False 10 0 8 (1 / 100) (1 / 1000) 250000
     = Inl ZeroDivisionError \<and>
   (FQF_init toy_lib toy_QLearning_init 1000 () () 0 None (1 / 2) 1 100 False 32 10 0 8
      (1 / 100) (1 / 1000) 250000 None (1 / 20000) (1 / 400000000) [512] 2 64 ''l1'' False False
    :: error + (unit, nat, nat, real, unit, nat, nat, unit, nat, real) FQF)
     = Inl AssertionError \<and>
   ''huber'' \<in> set [''l2'', ''huber''] \<and>
   (\<exists>self :: (unit, nat, nat, real, unit, nat, nat, unit, nat, real) FQF.
      FQF_init toy_lib toy_QLearning_init 1000 () () 0 None (1 / 2) 1 100 False 32 10 4 8
        (1 / 100) (1 / 1000) 250000 None (1 / 20000) (1 / 400000000) [512] 2 64 ''huber''
        False False = Inr self \<and>
      loss_type self = ''huber'')"
proof -
  have a: "''l1'' \<notin> set [''l2'', ''huber'']" by simp
  have b: "''huber'' \<in> set [''l2'', ''huber'']" by simp
  have p1: "toy_QLearning_init 1000 () () 0 None (1 / 2) 1 100 32 False 10 0 8 (1 / 100)
     (1 / 1000) 250000 = Inl ZeroDivisionError"
    by (simp add: toy_QLearning_init_def)
  have p2: "\<exists>base. toy_QLearning_init 1000 () () 0 None (1 / 2) 1 100 32 False 10 4 8 (1 / 100)
     (1 / 1000) 250000 = Inr base"
    by (simp add: toy_QLearning_init_def)
  from C10_loss_type_assertion [where loss_type' = "''l1''" and lib = toy_lib
      and QLearning_init_abs = toy_QLearning_init and update_interval' = 0
      and num_agent_steps' = 1000 and state_space' = "()" and action_space' = "()"
      and seed' = 0 and max_grad_norm' = None and gamma' = "1 / 2" and nstep' = 1
      and buffer_size' = 100 and use_per' = False and batch_size' = 32 and start_steps' = 10
      and update_interval_target' = 8 and eps' = "1 / 100" and eps_eval' = "1 / 1000"
      and eps_decay_steps' = 250000 and fn' = None and lr' = "1 / 20000"
      and lr_cum_p' = "1 / 400000000" and units' = "[512]" and num_quantiles' = 2
      and num_cosines' = 64 and dueling_net' = False and double_q' = False
      and ?'sp = unit and ?'s = nat and ?'a = nat and ?'w = real and ?'kw = unit
      and ?'sb = nat and ?'ft = nat and ?'o = unit and ?'os = nat and ?'pc = real] a
  have 1: "(FQF_init toy_lib toy_QLearning_init 1000 () () 0 None (1 / 2) 1 100 False 32 10 0 8
      (1 / 100) (1 / 1000) 250000 None (1 / 20000) (1 / 400000000) [512] 2 64 ''l1'' False False
    :: error + (unit, nat, nat, real, unit, nat, nat, unit, nat, real) FQF)
     = Inl AssertionError"
    by blast
  from p2 obtain base where base: "toy_QLearning_init 1000 () () 0 None (1 / 2) 1 100 32 False
     10 4 8 (1 / 100) (1 / 1000) 250000 = Inr base"
    by blast
  from C10_loss_type_assertion [where loss_type' = "''huber''" and lib = toy_lib
      and QLearning_init_abs = toy_QLearning_init and update_interval' = 4
      and num_agent_steps' = 1000 and state_space' = "()" and action_space' = "()"
      and seed' = 0 and max_grad_norm' = None and gamma' = "1 / 2" and nstep' = 1
      and buffer_size' = 100 and use_per' = False and batch_size' = 32 and start_steps' = 10
      and update_interval_target' = 8 and eps' = "1 / 100" and eps_eval' = "1 / 1000"
      and eps_decay_steps' = 250000 and fn' = None and lr' = "1 / 20000"
      and lr_cum_p' = "1 / 400000000" and units' = "[512]" and num_quantiles' = 2
      and num_cosines' = 64 and dueling_net' = False and double_q' = False
      and ?'sp = unit and ?'s = nat and ?'a = nat and ?'w = real and ?'kw = unit
      and ?'sb = nat and ?'ft = nat and ?'o = unit and ?'os = nat and ?'pc = real] b
  have 2: "\<exists>self :: (unit, nat, nat, real, unit, nat, nat, unit, nat, real) FQF.
      FQF_init toy_lib toy_QLearning_init 1000 () () 0 None (1 / 2) 1 100 False 32 10 4 8
        (1 / 100) (1 / 1000) 250000 None (1 / 20000) (1 / 400000000) [512] 2 64 ''huber''
        False False = Inr self \<and>
      loss_type self = ''huber''"
    by (simp add: base) blast
  from a b p1 1 2 show ?thesis by blast
qed

end
